theory Spec2Isabelle
  imports Complex_Main "HOL-Library.AList" "HOL-Library.Char_ord" "HOL-Library.List_Lexorder"
    "HOL-Library.Product_Lexorder"
begin

section \<open>Python values\<close>

text \<open>
  The two dashboards work on decoded JSON and on pandas cells. A float is either a finite
  number, taken as an exact rational (rounding is not modelled), or one of the three
  special values of IEEE arithmetic. Strings are byte strings (UTF-8); dictionaries are
  association lists in insertion order, looked up with \<open>map_of\<close>.
\<close>

datatype pyfloat = Finite rat | PosInf | NegInf | NaN

datatype pyval =
    PNone
  | PBool bool
  | PInt int
  | PFloat pyfloat
  | PStr string
  | PList "pyval list"
  | PDict "(string \<times> pyval) list"
  | PTimestamp int nat nat
  | PNaT

type_synonym pydict = "(string \<times> pyval) list"

text \<open>Python's \<open>sub in s\<close> on strings: \<open>sub\<close> occurs in \<open>s\<close> as a contiguous run.\<close>

fun py_in :: "string \<Rightarrow> string \<Rightarrow> bool" where
  "py_in sub [] = (sub = [])"
| "py_in sub (c # cs) = (take (length sub) (c # cs) = sub \<or> py_in sub cs)"

section \<open>Sales dashboard: product categories\<close>

text \<open>\<open>categorize_product\<close> of sales-report.py, lines 90 to 115.\<close>

fun categorize_product :: "pyval \<Rightarrow> string" where
  "categorize_product (PStr name) =
     (if py_in ''Kimono'' name then ''Kimono Jacket''
      else if py_in ''Gilet'' name then ''Gilet Jacket''
      else if py_in ''TP Jacket'' name \<or> py_in ''Trucker Jacket'' name then ''TP/Trucker Jacket''
      else if py_in ''Tote'' name then ''Tote Bag''
      else if py_in ''Hat'' name then ''Campaign Hats''
      else if py_in ''Shorts'' name then ''Shorts''
      else if py_in ''Jeans'' name then ''Jeans''
      else if py_in ''Skirt'' name then ''Skirt''
      else if py_in ''Bottle'' name then ''Bottle Sling''
      else if py_in ''DRESS'' name then ''Dress''
      else ''Other'')"
| "categorize_product _ = ''Unknown''"

text \<open>
  The specification's reading of the same function: an ordered list of rules, each a set
  of needles and a label; the first rule with a needle contained in the name gives the
  label, and a name that no rule matches is \<open>Other\<close>.
\<close>

definition category_rules :: "(string list \<times> string) list" where
  "category_rules =
     [([''Kimono''], ''Kimono Jacket''),
      ([''Gilet''], ''Gilet Jacket''),
      ([''TP Jacket'', ''Trucker Jacket''], ''TP/Trucker Jacket''),
      ([''Tote''], ''Tote Bag''),
      ([''Hat''], ''Campaign Hats''),
      ([''Shorts''], ''Shorts''),
      ([''Jeans''], ''Jeans''),
      ([''Skirt''], ''Skirt''),
      ([''Bottle''], ''Bottle Sling''),
      ([''DRESS''], ''Dress'')]"

fun first_match :: "(string list \<times> string) list \<Rightarrow> string \<Rightarrow> string" where
  "first_match [] name = ''Other''"
| "first_match ((needles, label) # rules) name =
     (if list_ex (\<lambda>needle. py_in needle name) needles then label else first_match rules name)"

definition is_str :: "pyval \<Rightarrow> bool" where
  "is_str v = (case v of PStr _ \<Rightarrow> True | _ \<Rightarrow> False)"

definition product_categories :: "string list" where
  "product_categories =
     [''Kimono Jacket'', ''Gilet Jacket'', ''TP/Trucker Jacket'', ''Tote Bag'', ''Campaign Hats'',
      ''Shorts'', ''Jeans'', ''Skirt'', ''Bottle Sling'', ''Dress'', ''Other'', ''Unknown'']"

section \<open>Errors and data frames\<close>

text \<open>The exceptions that the modelled code can raise.\<close>

datatype error =
    KeyError string
  | UnboundLocalError string
  | IntCastingNaNError
  | TypeError
  | ValueError string
  | Unmodelled

text \<open>
  A pandas frame: the column labels in order, and one association list per row holding a
  cell for every column. A cell that a record does not supply is the float NaN; pandas
  treats None, NaN and NaT alike as missing.
\<close>

record dataframe =
  columns :: "string list"
  rows :: "pydict list"

definition isna :: "pyval \<Rightarrow> bool" where
  "isna v = (v = PNone \<or> v = PFloat NaN \<or> v = PNaT)"

definition cell :: "pydict \<Rightarrow> string \<Rightarrow> pyval" where
  "cell r c = (case map_of r c of Some v \<Rightarrow> v | None \<Rightarrow> PFloat NaN)"

text \<open>Removing repeated elements, keeping each key's first occurrence in place.\<close>

fun unique_by :: "('a \<Rightarrow> 'k) \<Rightarrow> 'a list \<Rightarrow> 'a list" where
  "unique_by f [] = []"
| "unique_by f (x # xs) = x # unique_by f (filter (\<lambda>y. f y \<noteq> f x) xs)"

text \<open>
  \<open>pd.DataFrame(records)\<close> for a list of dictionaries: the columns are the keys in the
  order in which they first appear, and a record without a key gets NaN in that column.
\<close>

definition DataFrame :: "pydict list \<Rightarrow> dataframe" where
  "DataFrame records =
     (let cols = unique_by id (concat (map (map fst) records))
      in \<lparr>columns = cols, rows = map (\<lambda>r. map (\<lambda>c. (c, cell r c)) cols) records\<rparr>)"

text \<open>\<open>df[c]\<close> reads a column and raises KeyError when there is none.\<close>

definition column :: "string \<Rightarrow> dataframe \<Rightarrow> error + pyval list" where
  "column c df = (if c \<in> set (columns df) then Inr (map (\<lambda>r. cell r c) (rows df)) else Inl (KeyError c))"

text \<open>
  \<open>df[c] = values\<close> stores one value per row, replacing the column in place or adding
  it as the last one; \<open>df[c] = v\<close> stores the scalar \<open>v\<close> in every row.
\<close>

definition set_column :: "string \<Rightarrow> pyval list \<Rightarrow> dataframe \<Rightarrow> dataframe" where
  "set_column c vals df =
     \<lparr>columns = (if c \<in> set (columns df) then columns df else columns df @ [c]),
      rows = map (\<lambda>(r, v). AList.update c v r) (zip (rows df) vals)\<rparr>"

definition set_scalar :: "string \<Rightarrow> pyval \<Rightarrow> dataframe \<Rightarrow> dataframe" where
  "set_scalar c v df = set_column c (replicate (length (rows df)) v) df"

section \<open>Inventory dashboard: normalisation\<close>

text \<open>
  \<open>str.strip()\<close>: whitespace is removed at both ends. The whitespace of the ASCII range
  is modelled (tab, line feed, vertical tab, form feed, carriage return, the four
  separators 0x1C to 0x1F, and space).
\<close>

definition is_space :: "char \<Rightarrow> bool" where
  "is_space c = (c \<in> set [CHR 0x09, CHR 0x0A, CHR 0x0B, CHR 0x0C, CHR 0x0D,
                          CHR 0x1C, CHR 0x1D, CHR 0x1E, CHR 0x1F, CHR 0x20])"

definition py_strip :: "string \<Rightarrow> string" where
  "py_strip s = rev (dropWhile is_space (rev (dropWhile is_space s)))"

text \<open>
  \<open>pd.to_numeric(column, errors="coerce")\<close>, cell by cell: a number stays, a boolean
  counts as 0 or 1, a string is read by the library's number parser, and whatever is not
  a number becomes NaN. The parser of numeric strings is a parameter, \<open>parse\<close>; it yields
  \<open>None\<close> on a string that is not a number. Numbers are kept as they are: pandas holds
  the column as int64, uint64 or float64, and what that does to a number of magnitude
  above \<open>2^53\<close> (an integer rounded in a float64 column) is not modelled.
\<close>

fun to_numeric :: "(string \<Rightarrow> pyfloat option) \<Rightarrow> pyval \<Rightarrow> pyfloat" where
  "to_numeric parse (PInt n) = Finite (of_int n)"
| "to_numeric parse (PBool b) = Finite (if b then 1 else 0)"
| "to_numeric parse (PFloat x) = x"
| "to_numeric parse (PStr s) = (case parse s of Some x \<Rightarrow> x | None \<Rightarrow> NaN)"
| "to_numeric parse _ = NaN"

text \<open>\<open>.fillna(0)\<close> on a numeric column.\<close>

fun fillna0 :: "pyfloat \<Rightarrow> pyfloat" where
  "fillna0 NaN = Finite 0"
| "fillna0 x = x"

text \<open>
  \<open>.astype(int)\<close> truncates a finite number toward zero and raises on a value that is
  not finite. The result is int64 in the code and unbounded here: the wrap-around of a
  number beyond the int64 range is not modelled. Model and code agree on the numbers of
  magnitude up to \<open>2^53\<close>, which every 64-bit type in play holds exactly; \<open>exact_range\<close>
  names them.
\<close>

definition exact_range :: "rat \<Rightarrow> bool" where
  "exact_range q = (\<bar>q\<bar> \<le> 2 ^ 53)"


definition trunc :: "rat \<Rightarrow> int" where
  "trunc r = (if 0 \<le> r then \<lfloor>r\<rfloor> else \<lceil>r\<rceil>)"

fun astype_int :: "pyfloat list \<Rightarrow> error + int list" where
  "astype_int [] = Inr []"
| "astype_int (Finite r # xs) =
     (case astype_int xs of Inl e \<Rightarrow> Inl e | Inr ns \<Rightarrow> Inr (trunc r # ns))"
| "astype_int (_ # xs) = Inl IntCastingNaNError"

text \<open>
  The loop of \<open>process_store_data\<close> (main.py, lines 82 to 88): every item of every store,
  in order, as a copy that carries the stripped store name.
\<close>

definition all_items :: "(string \<times> pydict list) list \<Rightarrow> pydict list" where
  "all_items stores_data =
     concat (map (\<lambda>(store_name, items).
                    map (\<lambda>item. AList.update ''store_name'' (PStr (py_strip store_name)) item) items)
                 stores_data)"

text \<open>
  Lines 93 to 100: each of the four categorical columns that the frame does not have is
  added with \<open>Unknown\<close> in every row.
\<close>

definition default_unknown :: "string \<Rightarrow> dataframe \<Rightarrow> dataframe" where
  "default_unknown c df = (if c \<notin> set (columns df) then set_scalar c (PStr ''Unknown'') df else df)"

text \<open>Line 103: the count column is read, coerced to numbers, filled and cast.\<close>

definition coerce_count :: "(string \<Rightarrow> pyfloat option) \<Rightarrow> dataframe \<Rightarrow> error + dataframe" where
  "coerce_count parse df =
     (case column ''count'' df of
        Inl e \<Rightarrow> Inl e
      | Inr raw \<Rightarrow>
          (case astype_int (map fillna0 (map (to_numeric parse) raw)) of
             Inl e \<Rightarrow> Inl e
           | Inr ns \<Rightarrow> Inr (set_column ''count'' (map PInt ns) df)))"

definition categorical_defaults :: "dataframe \<Rightarrow> dataframe" where
  "categorical_defaults df =
     (let df = default_unknown ''category'' df;
          df = default_unknown ''collection'' df;
          df = default_unknown ''gender'' df;
          df = default_unknown ''size'' df
      in df)"

definition process_store_data ::
  "(string \<Rightarrow> pyfloat option) \<Rightarrow> (string \<times> pydict list) list \<Rightarrow> error + dataframe" where
  "process_store_data parse stores_data =
     (let df = DataFrame (all_items stores_data);
          df = categorical_defaults df
      in coerce_count parse df)"

text \<open>
  A parser for the closed examples below: an optional sign and decimal digits. The
  library's parser reads these strings the same way (and many more).
\<close>

definition digit_val :: "char \<Rightarrow> nat option" where
  "digit_val c = map_of (zip ''0123456789'' [0, 1, 2, 3, 4, 5, 6, 7, 8, 9]) c"

fun digits_val :: "nat \<Rightarrow> string \<Rightarrow> nat option" where
  "digits_val acc [] = Some acc"
| "digits_val acc (c # cs) =
     (case digit_val c of None \<Rightarrow> None | Some d \<Rightarrow> digits_val (10 * acc + d) cs)"

definition parse_decimal :: "string \<Rightarrow> pyfloat option" where
  "parse_decimal s =
     (case s of
        [] \<Rightarrow> None
      | c # cs \<Rightarrow>
          if c = CHR ''-'' \<and> cs \<noteq> [] then map_option (\<lambda>n. Finite (- of_nat n)) (digits_val 0 cs)
          else if c = CHR ''+'' \<and> cs \<noteq> [] then map_option (\<lambda>n. Finite (of_nat n)) (digits_val 0 cs)
          else map_option (\<lambda>n. Finite (of_nat n)) (digits_val 0 s))"

text \<open>The item records of a payload as they come, in the order of the loop.\<close>

definition item_records :: "(string \<times> pydict list) list \<Rightarrow> pydict list" where
  "item_records stores_data = concat (map snd stores_data)"

definition categorical :: "string list" where
  "categorical = [''category'', ''collection'', ''gender'', ''size'']"

text \<open>Payloads and frames for the closed examples below.\<close>

definition payload_negative :: "(string \<times> pydict list) list" where
  "payload_negative = [(''Store A'', [[(''category'', PStr ''Tops''), (''count'', PInt (- 5))]])]"

definition frame_negative :: dataframe where
  "frame_negative =
     \<lparr>columns = [''category'', ''count'', ''store_name'', ''collection'', ''gender'', ''size''],
      rows = [[(''category'', PStr ''Tops''), (''count'', PInt (- 5)),
               (''store_name'', PStr ''Store A''), (''collection'', PStr ''Unknown''),
               (''gender'', PStr ''Unknown''), (''size'', PStr ''Unknown'')]]\<rparr>"

definition payload_mixed :: "(string \<times> pydict list) list" where
  "payload_mixed =
     [(''Store A '', [[(''category'', PStr ''Tops''), (''count'', PStr ''5'')],
                      [(''count'', PInt 3)]]),
      (''Store B'', [[(''category'', PStr ''Bags''), (''count'', PStr ''n/a'')],
                     [(''category'', PStr ''Tops'')]])]"

definition frame_mixed :: dataframe where
  "frame_mixed =
     \<lparr>columns = [''category'', ''count'', ''store_name'', ''collection'', ''gender'', ''size''],
      rows = [[(''category'', PStr ''Tops''), (''count'', PInt 5),
               (''store_name'', PStr ''Store A''), (''collection'', PStr ''Unknown''),
               (''gender'', PStr ''Unknown''), (''size'', PStr ''Unknown'')],
              [(''category'', PFloat NaN), (''count'', PInt 3),
               (''store_name'', PStr ''Store A''), (''collection'', PStr ''Unknown''),
               (''gender'', PStr ''Unknown''), (''size'', PStr ''Unknown'')],
              [(''category'', PStr ''Bags''), (''count'', PInt 0),
               (''store_name'', PStr ''Store B''), (''collection'', PStr ''Unknown''),
               (''gender'', PStr ''Unknown''), (''size'', PStr ''Unknown'')],
              [(''category'', PStr ''Tops''), (''count'', PInt 0),
               (''store_name'', PStr ''Store B''), (''collection'', PStr ''Unknown''),
               (''gender'', PStr ''Unknown''), (''size'', PStr ''Unknown'')]]\<rparr>"

section \<open>Inventory dashboard: selectors, filters and aggregation\<close>

text \<open>
  pandas and Python compare cells by value: True, 1 and 1.0 are one key. \<open>scalar_key\<close>
  gives every hashable, non-missing cell its key, ordered as pandas orders group labels
  (numbers before strings, each kind in its own order); \<open>is_scalar\<close> holds of the cells
  that have one.
\<close>

fun is_scalar :: "pyval \<Rightarrow> bool" where
  "is_scalar (PBool _) = True"
| "is_scalar (PInt _) = True"
| "is_scalar (PFloat x) = (x \<noteq> NaN)"
| "is_scalar (PStr _) = True"
| "is_scalar (PTimestamp _ _ _) = True"
| "is_scalar _ = False"

fun scalar_key :: "pyval \<Rightarrow> nat \<times> rat \<times> string" where
  "scalar_key (PBool b) = (1, (if b then 1 else 0), [])"
| "scalar_key (PInt n) = (1, of_int n, [])"
| "scalar_key (PFloat (Finite r)) = (1, r, [])"
| "scalar_key (PFloat NegInf) = (0, 0, [])"
| "scalar_key (PFloat PosInf) = (2, 0, [])"
| "scalar_key (PStr s) = (3, 0, s)"
| "scalar_key (PTimestamp y m d) = (4, of_int (y * 10000 + int m * 100 + int d), [])"
| "scalar_key PNone = (5, 0, [])"
| "scalar_key (PFloat NaN) = (6, 0, [])"
| "scalar_key PNaT = (7, 0, [])"
| "scalar_key (PList _) = (8, 0, [])"
| "scalar_key (PDict _) = (9, 0, [])"

definition is_numeric :: "pyval \<Rightarrow> bool" where
  "is_numeric v = (case v of PBool _ \<Rightarrow> True | PInt _ \<Rightarrow> True | PFloat _ \<Rightarrow> True | _ \<Rightarrow> False)"

definition is_time :: "pyval \<Rightarrow> bool" where
  "is_time v = (case v of PTimestamp _ _ _ \<Rightarrow> True | PNaT \<Rightarrow> True | _ \<Rightarrow> False)"

definition unhashable :: "pyval \<Rightarrow> bool" where
  "unhashable v = (case v of PList _ \<Rightarrow> True | PDict _ \<Rightarrow> True | _ \<Rightarrow> False)"

text \<open>\<open>Series == value\<close>, cell by cell: a missing cell equals nothing.\<close>

definition cell_eq :: "pyval \<Rightarrow> pyval \<Rightarrow> bool" where
  "cell_eq a b = (is_scalar a \<and> is_scalar b \<and> scalar_key a = scalar_key b)"

text \<open>\<open>Series.unique()\<close>: first occurrences, and TypeError on a list or a dictionary.\<close>

definition pd_unique :: "pyval list \<Rightarrow> error + pyval list" where
  "pd_unique xs = (if list_ex unhashable xs then Inl TypeError else Inr (unique_by scalar_key xs))"

text \<open>
  \<open>sorted(xs)\<close> on cells. A list of at most one cell is returned as it is. Strings are
  sorted among themselves, numbers among themselves and timestamps among themselves
  (stably); cells of different kinds, and None beside anything, cannot be compared, and
  the sort raises TypeError. Every comparison with NaN (or NaT) is false, so with one in
  the list the order that CPython's sort leaves depends on the course of its
  comparisons: it is some arrangement of the list. The parameter \<open>nan_order\<close> stands for
  it, as a rank by which the list is arranged; the cells are distinct (they come from
  \<open>unique()\<close>), so every arrangement is that of some rank. Lists and dictionaries never
  reach \<open>sorted\<close>: \<open>unique()\<close> has refused them.
\<close>

definition py_sorted :: "(pyval \<Rightarrow> nat) \<Rightarrow> pyval list \<Rightarrow> error + pyval list" where
  "py_sorted nan_order xs =
     (if length xs \<le> 1 then Inr xs
      else if list_ex unhashable xs then Inl Unmodelled
      else if list_all is_str xs then Inr (sort_key scalar_key xs)
      else if list_all is_numeric xs \<or> list_all is_time xs
        then Inr (if list_ex isna xs then sort_key nan_order xs else sort_key scalar_key xs)
      else Inl TypeError)"

text \<open>
  What a select box returns before the user chooses: the option at index 0, and None
  when it has no option.
\<close>

definition selectbox_default :: "pyval list \<Rightarrow> pyval" where
  "selectbox_default opts = (case opts of [] \<Rightarrow> PNone | first # _ \<Rightarrow> first)"

definition bind :: "error + 'a \<Rightarrow> ('a \<Rightarrow> error + 'b) \<Rightarrow> error + 'b" where
  "bind m f = (case m of Inl e \<Rightarrow> Inl e | Inr x \<Rightarrow> f x)"

text \<open>
  main.py, lines 113 to 126: \<open>["All Stores"] + sorted(df["store_name"].unique().tolist())\<close>,
  and for the three categorical facets the same over the cells that are not missing.
\<close>

definition all_stores :: "(pyval \<Rightarrow> nat) \<Rightarrow> dataframe \<Rightarrow> error + pyval list" where
  "all_stores nan_order df =
     bind (column ''store_name'' df) (\<lambda>col.
     bind (pd_unique col) (\<lambda>u.
     bind (py_sorted nan_order u) (\<lambda>s. Inr (PStr ''All Stores'' # s))))"

definition notna_options ::
  "(pyval \<Rightarrow> nat) \<Rightarrow> string \<Rightarrow> string \<Rightarrow> dataframe \<Rightarrow> error + pyval list" where
  "notna_options nan_order wildcard c df =
     bind (column c df) (\<lambda>col.
     bind (pd_unique (filter (\<lambda>v. \<not> isna v) col)) (\<lambda>u.
     bind (py_sorted nan_order u) (\<lambda>s. Inr (PStr wildcard # s))))"

definition all_categories :: "(pyval \<Rightarrow> nat) \<Rightarrow> dataframe \<Rightarrow> error + pyval list" where
  "all_categories nan_order df = notna_options nan_order ''All Categories'' ''category'' df"

definition all_collections :: "(pyval \<Rightarrow> nat) \<Rightarrow> dataframe \<Rightarrow> error + pyval list" where
  "all_collections nan_order df = notna_options nan_order ''All Collections'' ''collection'' df"

definition all_genders :: "(pyval \<Rightarrow> nat) \<Rightarrow> dataframe \<Rightarrow> error + pyval list" where
  "all_genders nan_order df = notna_options nan_order ''All Genders'' ''gender'' df"

text \<open>A rank for the closed examples below (none of their lists holds NaN).\<close>

definition sample_nan_order :: "pyval \<Rightarrow> nat" where
  "sample_nan_order v = 0"

text \<open>\<open>df[df[c] == v]\<close>: the rows whose cell in column \<open>c\<close> equals \<open>v\<close>.\<close>

definition eq_filter :: "string \<Rightarrow> pyval \<Rightarrow> dataframe \<Rightarrow> error + dataframe" where
  "eq_filter c v df =
     (if c \<in> set (columns df)
      then Inr (df\<lparr>rows := filter (\<lambda>r. cell_eq (cell r c) v) (rows df)\<rparr>)
      else Inl (KeyError c))"

text \<open>main.py, lines 129 to 137. The four selections are what the select boxes return.\<close>

definition inventory_filtered ::
  "pyval \<Rightarrow> pyval \<Rightarrow> pyval \<Rightarrow> pyval \<Rightarrow> dataframe \<Rightarrow> error + dataframe" where
  "inventory_filtered selected_store selected_category selected_collection selected_gender df =
     bind (if selected_store \<noteq> PStr ''All Stores''
           then eq_filter ''store_name'' selected_store df else Inr df) (\<lambda>df1.
     bind (if selected_category \<noteq> PStr ''All Categories''
           then eq_filter ''category'' selected_category df1 else Inr df1) (\<lambda>df2.
     bind (if selected_collection \<noteq> PStr ''All Collections''
           then eq_filter ''collection'' selected_collection df2 else Inr df2) (\<lambda>df3.
     (if selected_gender \<noteq> PStr ''All Genders''
      then eq_filter ''gender'' selected_gender df3 else Inr df3))))"

text \<open>
  The sums below are pandas' sums on a table whose count column holds integers, as the
  count column of a normalised inventory table does; \<open>integer_counts\<close> says so. On such a
  table \<open>count_of\<close> reads a row's count. (For a cell that is not an integer it gives 0,
  which is not what pandas would add; nothing is stated about such tables.) An int64
  column is summed in int64, so a sum wraps around.
\<close>

definition is_int :: "pyval \<Rightarrow> bool" where
  "is_int v = (case v of PInt _ \<Rightarrow> True | _ \<Rightarrow> False)"

definition integer_counts :: "dataframe \<Rightarrow> bool" where
  "integer_counts df = list_all (\<lambda>r. is_int (cell r ''count'')) (rows df)"

definition count_of :: "pydict \<Rightarrow> int" where
  "count_of r = (case cell r ''count'' of PInt n \<Rightarrow> n | _ \<Rightarrow> 0)"

definition int64 :: "int \<Rightarrow> int" where
  "int64 n = (n + 2 ^ 63) mod 2 ^ 64 - 2 ^ 63"

text \<open>\<open>df["count"].sum()\<close> (line 148).\<close>

definition count_total :: "dataframe \<Rightarrow> int" where
  "count_total df = int64 (sum_list (map count_of (rows df)))"

text \<open>
  \<open>df.groupby(c)["count"].sum().reset_index()\<close> (lines 171, 190, 208, 226 and others):
  rows whose key is missing are left out (pandas' default \<open>dropna=True\<close>), the others are
  grouped by key, and the result has one row per key, in key order, with the group's sum.
  Grouping by the count column itself fails in \<open>reset_index\<close>, which cannot insert a
  second column of that name.
\<close>

definition groupby_count_sum :: "string \<Rightarrow> dataframe \<Rightarrow> error + dataframe" where
  "groupby_count_sum c df =
     bind (column c df) (\<lambda>_.
     bind (column ''count'' df) (\<lambda>_.
     bind (if c = ''count'' then Inl (ValueError ''count'') else Inr ()) (\<lambda>_.
       let kept = filter (\<lambda>r. \<not> isna (cell r c)) (rows df)
       in bind (pd_unique (map (\<lambda>r. cell r c) kept)) (\<lambda>labels.
          Inr \<lparr>columns = [c, ''count''],
               rows = map (\<lambda>k. [(c, k),
                                 (''count'', PInt (int64 (sum_list (map count_of
                                    (filter (\<lambda>r. scalar_key (cell r c) = scalar_key k) kept)))))])
                          (sort_key scalar_key labels)\<rparr>))))"

text \<open>The count total restricted to the rows whose cell in column \<open>c\<close> is not missing.\<close>

definition keyed_total :: "string \<Rightarrow> dataframe \<Rightarrow> int" where
  "keyed_total c df = int64 (sum_list (map count_of (filter (\<lambda>r. \<not> isna (cell r c)) (rows df))))"

text \<open>
  The specification's reading of a facet: a selection is either the wildcard, which
  admits every row, or a value that the row's cell must equal.
\<close>

definition facet_admits :: "string \<Rightarrow> string \<Rightarrow> pyval \<Rightarrow> pydict \<Rightarrow> bool" where
  "facet_admits wildcard c selected r = (selected = PStr wildcard \<or> cell_eq (cell r c) selected)"

text \<open>The aggregates of the closed examples below.\<close>

definition by_category_mixed :: dataframe where
  "by_category_mixed =
     \<lparr>columns = [''category'', ''count''],
      rows = [[(''category'', PStr ''Bags''), (''count'', PInt 0)],
              [(''category'', PStr ''Tops''), (''count'', PInt 5)]]\<rparr>"

definition by_store_mixed :: dataframe where
  "by_store_mixed =
     \<lparr>columns = [''store_name'', ''count''],
      rows = [[(''store_name'', PStr ''Store A''), (''count'', PInt 8)],
              [(''store_name'', PStr ''Store B''), (''count'', PInt 0)]]\<rparr>"

section \<open>Inventory dashboard: the fetcher\<close>

text \<open>
  What \<open>requests.get\<close> gives back: an exception (no connection, a timeout), or a response
  with its status code and body. What the dashboards show the user is kept as a list of
  messages.
\<close>

datatype http_result = RequestFailed | Response nat string

datatype message =
    ErrorParsingJson
  | ErrorStatus pyval
  | ErrorFetching
  | WarningStatus nat
  | WarningFetch
  | WarningNoMonth

text \<open>\<open>Response.raise_for_status()\<close> raises for the client and server error codes.\<close>

definition raise_for_status :: "nat \<Rightarrow> bool" where
  "raise_for_status code = (400 \<le> code \<and> code < 600)"

text \<open>
  \<open>obj[key]\<close> with a string key: a dictionary is looked up, and raises KeyError without
  the key; nothing else can be indexed by a string.
\<close>

definition py_getitem :: "pyval \<Rightarrow> string \<Rightarrow> error + pyval" where
  "py_getitem obj key =
     (case obj of
        PDict d \<Rightarrow> (case map_of d key of Some v \<Rightarrow> Inr v | None \<Rightarrow> Inl (KeyError key))
      | _ \<Rightarrow> Inl TypeError)"

text \<open>
  \<open>fetch_store_data\<close> (main.py, lines 49 to 70). The JSON decoder is a parameter,
  \<open>loads\<close>, with \<open>None\<close> for a text that it rejects; the same decoder reads the body and a
  string-encoded data field. Every exception inside the \<open>try\<close> ends in the outer handler,
  which reports it and returns the empty dictionary.
\<close>

definition fetch_store_data :: "(string \<Rightarrow> pyval option) \<Rightarrow> http_result \<Rightarrow> message list \<times> pyval" where
  "fetch_store_data loads result =
     (case result of
        RequestFailed \<Rightarrow> ([ErrorFetching], PDict [])
      | Response code body \<Rightarrow>
          if raise_for_status code then ([ErrorFetching], PDict [])
          else
            (case loads body of
               None \<Rightarrow> ([ErrorFetching], PDict [])
             | Some data \<Rightarrow>
                 (case py_getitem data ''status'' of
                    Inl _ \<Rightarrow> ([ErrorFetching], PDict [])
                  | Inr status \<Rightarrow>
                      if status = PStr ''success'' then
                        (case py_getitem data ''data'' of
                           Inl _ \<Rightarrow> ([ErrorFetching], PDict [])
                         | Inr d \<Rightarrow>
                             (case d of
                                PStr s \<Rightarrow>
                                  (case loads s of
                                     Some v \<Rightarrow> ([], v)
                                   | None \<Rightarrow> ([ErrorParsingJson], PDict []))
                              | _ \<Rightarrow> ([], d)))
                      else ([ErrorStatus status], PDict []))))"

text \<open>
  Response bodies for the closed examples below, and a decoder that knows these texts
  (and the two data strings) and rejects every other.
\<close>

definition body_success :: string where
  \<open>body_success = ''{"status": "success", "data": {"Store A": [{"count": 5}]}}''\<close>

definition body_success_encoded :: string where
  \<open>body_success_encoded = ''{"status": "success", "data": "[1]"}''\<close>

definition body_bad_encoded :: string where
  \<open>body_bad_encoded = ''{"status": "success", "data": "{oops"}''\<close>

definition body_error_status :: string where
  \<open>body_error_status = ''{"status": "error", "data": {}}''\<close>

definition body_sales :: string where
  \<open>body_sales = ''{"data": [{"store_name": " Store A ", "item_name": "Kimono Gilet Jacket", "month": "2025-01-01", "total_quantity": 10}, {"store_name": "Store B", "item_name": 7, "month": "2024-12-01", "total_quantity": 15}]}''\<close>

definition sample_loads :: "string \<Rightarrow> pyval option" where
  "sample_loads =
     map_of
       [(body_success,
         PDict [(''status'', PStr ''success''),
                (''data'', PDict [(''Store A'', PList [PDict [(''count'', PInt 5)]])])]),
        (body_success_encoded,
         PDict [(''status'', PStr ''success''), (''data'', PStr ''[1]'')]),
        (''[1]'', PList [PInt 1]),
        (body_bad_encoded,
         PDict [(''status'', PStr ''success''), (''data'', PStr ''{oops'')]),
        (body_error_status,
         PDict [(''status'', PStr ''error''), (''data'', PDict [])]),
        (body_sales,
         PDict [(''data'',
            PList [PDict [(''store_name'', PStr '' Store A ''), (''item_name'', PStr ''Kimono Gilet Jacket''),
                          (''month'', PStr ''2025-01-01''), (''total_quantity'', PInt 10)],
                   PDict [(''store_name'', PStr ''Store B''), (''item_name'', PInt 7),
                          (''month'', PStr ''2024-12-01''), (''total_quantity'', PInt 15)]])])]"

section \<open>Sales dashboard: loading and normalisation\<close>

text \<open>
  The \<open>try\<close> block of \<open>load_data\<close> (sales-report.py, lines 58 to 66). The local variable
  \<open>json_data\<close> is assigned on one path only: status 200 and a body that decodes. On the
  other paths a warning is shown and the variable stays unbound, which is \<open>None\<close> here.
\<close>

definition try_fetch :: "(string \<Rightarrow> pyval option) \<Rightarrow> http_result \<Rightarrow> message list \<times> pyval option" where
  "try_fetch loads result =
     (case result of
        RequestFailed \<Rightarrow> ([WarningFetch], None)
      | Response code body \<Rightarrow>
          if code = 200 then
            (case loads body of Some json_data \<Rightarrow> ([], Some json_data) | None \<Rightarrow> ([WarningFetch], None))
          else ([WarningStatus code], None))"

text \<open>
  \<open>pd.DataFrame(json_data['data'])\<close> is modelled for the documented payload, a list of
  records; for any other value the model stops with \<open>Unmodelled\<close>.
\<close>

fun as_record :: "pyval \<Rightarrow> pydict option" where
  "as_record (PDict d) = Some d"
| "as_record _ = None"

definition as_records :: "pyval \<Rightarrow> pydict list option" where
  "as_records v =
     (case v of
        PList items \<Rightarrow> (if list_all (\<lambda>i. as_record i \<noteq> None) items
                        then Some (map (\<lambda>i. the (as_record i)) items) else None)
      | _ \<Rightarrow> None)"

text \<open>
  \<open>pd.to_datetime\<close> is a parameter that reads one cell: it raises, or gives no date
  (NaT), or a calendar date. The accessors \<open>.dt.strftime('%b')\<close>, \<open>.dt.year\<close> and
  \<open>.dt.strftime('%b %Y')\<close> give NaN on a cell without a date.
\<close>

fun to_datetime_column ::
  "(pyval \<Rightarrow> error + (int \<times> nat \<times> nat) option) \<Rightarrow> pyval list \<Rightarrow> error + pyval list" where
  "to_datetime_column to_datetime [] = Inr []"
| "to_datetime_column to_datetime (v # vs) =
     (case to_datetime v of
        Inl e \<Rightarrow> Inl e
      | Inr d \<Rightarrow>
          (case to_datetime_column to_datetime vs of
             Inl e \<Rightarrow> Inl e
           | Inr ds \<Rightarrow> Inr ((case d of None \<Rightarrow> PNaT | Some (y, m, dd) \<Rightarrow> PTimestamp y m dd) # ds)))"

definition month_abbr :: "nat \<Rightarrow> string" where
  "month_abbr m =
     (if 1 \<le> m \<and> m \<le> 12
      then [''Jan'', ''Feb'', ''Mar'', ''Apr'', ''May'', ''Jun'',
            ''Jul'', ''Aug'', ''Sep'', ''Oct'', ''Nov'', ''Dec''] ! (m - 1)
      else [])"

definition digit_char :: "nat \<Rightarrow> char" where
  "digit_char d = ''0123456789'' ! (d mod 10)"

definition year4 :: "int \<Rightarrow> string" where
  "year4 y = (let n = nat y in map digit_char [n div 1000, n div 100, n div 10, n])"

fun strftime_b :: "pyval \<Rightarrow> pyval" where
  "strftime_b (PTimestamp y m d) = PStr (month_abbr m)"
| "strftime_b _ = PFloat NaN"

fun dt_year :: "pyval \<Rightarrow> pyval" where
  "dt_year (PTimestamp y m d) = PInt y"
| "dt_year _ = PFloat NaN"

fun strftime_b_Y :: "pyval \<Rightarrow> pyval" where
  "strftime_b_Y (PTimestamp y m d) = PStr (month_abbr m @ '' '' @ year4 y)"
| "strftime_b_Y _ = PFloat NaN"

text \<open>
  \<open>.str.strip()\<close>: a string is stripped, any other cell becomes NaN. (pandas refuses the
  \<open>.str\<close> accessor on a column that holds no string at all; that failure is not
  modelled.)
\<close>

fun str_strip :: "pyval \<Rightarrow> pyval" where
  "str_strip (PStr s) = PStr (py_strip s)"
| "str_strip _ = PFloat NaN"

text \<open>
  \<open>load_data\<close>, lines 69 to 119, from the frame on. The result pairs the messages shown
  with the frame or the exception that ends the call.
\<close>

definition normalize_sales ::
  "(pyval \<Rightarrow> error + (int \<times> nat \<times> nat) option) \<Rightarrow> dataframe \<Rightarrow> message list \<times> (error + dataframe)" where
  "normalize_sales to_datetime df =
     (let (msgs, dated) =
            (if ''month'' \<in> set (columns df)
             then ([], bind (column ''month'' df) (\<lambda>month.
                       bind (to_datetime_column to_datetime month) (\<lambda>dates.
                       Inr (set_column ''date'' dates df))))
             else ([WarningNoMonth], Inr (set_scalar ''date'' (PTimestamp 2025 1 1) df)))
      in (msgs,
          bind dated (\<lambda>df.
          bind (column ''date'' df) (\<lambda>date.
          let df = set_column ''month_name'' (map strftime_b date) df;
              df = set_column ''year'' (map dt_year date) df;
              df = set_column ''month_year'' (map strftime_b_Y date) df
          in bind (column ''store_name'' df) (\<lambda>store_name.
             let df = set_column ''store_name'' (map str_strip store_name) df
             in bind (column ''item_name'' df) (\<lambda>item_name.
                Inr (set_column ''product_category''
                       (map (\<lambda>name. PStr (categorize_product name)) item_name) df)))))))"

definition load_data ::
  "(string \<Rightarrow> pyval option) \<Rightarrow> (pyval \<Rightarrow> error + (int \<times> nat \<times> nat) option) \<Rightarrow> http_result
     \<Rightarrow> message list \<times> (error + dataframe)" where
  "load_data loads to_datetime result =
     (let (warnings, json_data) = try_fetch loads result
      in case json_data of
           None \<Rightarrow> (warnings, Inl (UnboundLocalError ''json_data''))
         | Some j \<Rightarrow>
             (case py_getitem j ''data'' of
                Inl e \<Rightarrow> (warnings, Inl e)
              | Inr d \<Rightarrow>
                  (case as_records d of
                     None \<Rightarrow> (warnings, Inl Unmodelled)
                   | Some records \<Rightarrow>
                       (let (msgs, r) = normalize_sales to_datetime (DataFrame records)
                        in (warnings @ msgs, r)))))"

text \<open>A date reader for the closed examples below: it knows two first days of a month.\<close>

definition sample_to_datetime :: "pyval \<Rightarrow> error + (int \<times> nat \<times> nat) option" where
  "sample_to_datetime v =
     (case v of
        PStr s \<Rightarrow>
          (case map_of [(''2025-01-01'', (2025, 1, 1)), (''2024-12-01'', (2024, 12, 1))] s of
             Some d \<Rightarrow> Inr (Some d)
           | None \<Rightarrow> Inl (ValueError ''date''))
      | _ \<Rightarrow> (if isna v then Inr None else Inl (ValueError ''date'')))"

section \<open>Sales dashboard: selectors and filters\<close>

text \<open>
  sales-report.py, lines 144 to 174: the options of the four select boxes. The years are
  the distinct cells of the year column, \<open>sorted(..., reverse=True)\<close>; the cells are
  distinct, so this is the sorted list reversed. The year box is created with \<open>index=0\<close>,
  the others with the default index, which is 0 as well. The months are a literal list.
\<close>

definition years :: "(pyval \<Rightarrow> nat) \<Rightarrow> dataframe \<Rightarrow> error + pyval list" where
  "years nan_order df =
     bind (column ''year'' df) (\<lambda>col.
     bind (pd_unique col) (\<lambda>u.
     bind (py_sorted nan_order u) (\<lambda>s. Inr (rev s))))"

definition months :: "pyval list" where
  "months = map PStr [''All Months'', ''Jan'', ''Feb'', ''Mar'', ''Apr'', ''May'', ''Jun'',
                      ''Jul'', ''Aug'', ''Sep'', ''Oct'', ''Nov'', ''Dec'']"

definition all_stores_option :: "(pyval \<Rightarrow> nat) \<Rightarrow> dataframe \<Rightarrow> error + pyval list" where
  "all_stores_option nan_order df =
     bind (column ''store_name'' df) (\<lambda>col.
     bind (pd_unique col) (\<lambda>u.
     bind (py_sorted nan_order u) (\<lambda>s. Inr (PStr ''All Stores'' # s))))"

definition sales_all_categories :: "(pyval \<Rightarrow> nat) \<Rightarrow> dataframe \<Rightarrow> error + pyval list" where
  "sales_all_categories nan_order df =
     bind (column ''product_category'' df) (\<lambda>col.
     bind (pd_unique col) (\<lambda>u.
     bind (py_sorted nan_order u) (\<lambda>s. Inr (PStr ''All Categories'' # s))))"

text \<open>Lines 177 to 192: the year filter is applied whatever was selected.\<close>

definition sales_filtered ::
  "pyval \<Rightarrow> pyval \<Rightarrow> pyval \<Rightarrow> pyval \<Rightarrow> dataframe \<Rightarrow> error + dataframe" where
  "sales_filtered selected_year selected_month selected_store selected_category df =
     bind (eq_filter ''year'' selected_year df) (\<lambda>df1.
     bind (if selected_month \<noteq> PStr ''All Months''
           then eq_filter ''month_name'' selected_month df1 else Inr df1) (\<lambda>df2.
     bind (if selected_store \<noteq> PStr ''All Stores''
           then eq_filter ''store_name'' selected_store df2 else Inr df2) (\<lambda>df3.
     (if selected_category \<noteq> PStr ''All Categories''
      then eq_filter ''product_category'' selected_category df3 else Inr df3))))"

text \<open>The sales table of the closed examples below, and its two rows as tables.\<close>

definition sales_columns :: "string list" where
  "sales_columns = [''store_name'', ''item_name'', ''month'', ''total_quantity'', ''date'',
                    ''month_name'', ''year'', ''month_year'', ''product_category'']"

definition sales_row_2025 :: pydict where
  "sales_row_2025 =
     [(''store_name'', PStr ''Store A''), (''item_name'', PStr ''Kimono Gilet Jacket''),
      (''month'', PStr ''2025-01-01''), (''total_quantity'', PInt 10),
      (''date'', PTimestamp 2025 1 1), (''month_name'', PStr ''Jan''), (''year'', PInt 2025),
      (''month_year'', PStr ''Jan 2025''), (''product_category'', PStr ''Kimono Jacket'')]"

definition sales_row_2024 :: pydict where
  "sales_row_2024 =
     [(''store_name'', PStr ''Store B''), (''item_name'', PInt 7),
      (''month'', PStr ''2024-12-01''), (''total_quantity'', PInt 15),
      (''date'', PTimestamp 2024 12 1), (''month_name'', PStr ''Dec''), (''year'', PInt 2024),
      (''month_year'', PStr ''Dec 2024''), (''product_category'', PStr ''Unknown'')]"

definition frame_sales :: dataframe where
  "frame_sales = \<lparr>columns = sales_columns, rows = [sales_row_2025, sales_row_2024]\<rparr>"

section \<open>Sales dashboard: month-over-month growth\<close>

text \<open>
  float64 arithmetic. An operation on finite numbers gives the exact result rounded to
  the nearest float64, ties to the even significand; \<open>round64\<close> is that rounding: the
  number is written as \<open>m * 2^e\<close> with a significand \<open>m\<close> of 53 bits (fewer below
  \<open>2^-1022\<close>, where \<open>e\<close> stays at -1074), and a result of \<open>2^1024\<close> or more is an
  infinity. A finite float is the rational number it stands for; the sign of a
  zero is not kept, so a zero divisor counts as positive.
\<close>

function log2_floor :: "int \<Rightarrow> int" where
  "log2_floor n = (if n < 2 then 0 else 1 + log2_floor (n div 2))"
  by pat_completeness auto
termination
  by (relation "measure nat") auto

text \<open>Powers of two with an integer exponent, by repeated squaring.\<close>

function pow2_nonneg :: "int \<Rightarrow> rat" where
  "pow2_nonneg e =
     (if e \<le> 0 then 1
      else let h = pow2_nonneg (e div 2) in if even e then h * h else 2 * (h * h))"
  by pat_completeness auto
termination
  by (relation "measure nat") auto

definition pow2 :: "int \<Rightarrow> rat" where
  "pow2 e = (if 0 \<le> e then pow2_nonneg e else 1 / pow2_nonneg (- e))"

text \<open>For \<open>x > 0\<close>, the exponent \<open>k\<close> with \<open>2^k \<le> x < 2^(k+1)\<close>.\<close>

definition ilog2 :: "rat \<Rightarrow> int" where
  "ilog2 x =
     (let (p, q) = quotient_of x;
          k = log2_floor p - log2_floor q
      in if pow2 k \<le> x then k else k - 1)"

definition round_half_even :: "rat \<Rightarrow> int" where
  "round_half_even y =
     (let f = \<lfloor>y\<rfloor>; d = y - of_int f
      in if d < 1 / 2 then f else if 1 / 2 < d then f + 1 else if even f then f else f + 1)"

definition signed_inf :: "bool \<Rightarrow> pyfloat" where
  "signed_inf positive = (if positive then PosInf else NegInf)"

definition round64 :: "rat \<Rightarrow> pyfloat" where
  "round64 x =
     (if x = 0 then Finite 0
      else
        let a = \<bar>x\<bar>;
            e = max (ilog2 a - 52) (- 1074);
            m = round_half_even (a / pow2 e)
        in if 971 < e \<or> (e = 971 \<and> 2 ^ 53 \<le> m) then signed_inf (0 < x)
           else Finite (if 0 < x then of_int m * pow2 e else - (of_int m * pow2 e)))"

fun fsub :: "pyfloat \<Rightarrow> pyfloat \<Rightarrow> pyfloat" where
  "fsub (Finite a) (Finite b) = round64 (a - b)"
| "fsub NaN _ = NaN"
| "fsub _ NaN = NaN"
| "fsub PosInf PosInf = NaN"
| "fsub NegInf NegInf = NaN"
| "fsub PosInf _ = PosInf"
| "fsub NegInf _ = NegInf"
| "fsub _ PosInf = NegInf"
| "fsub _ NegInf = PosInf"

fun fdiv :: "pyfloat \<Rightarrow> pyfloat \<Rightarrow> pyfloat" where
  "fdiv (Finite a) (Finite b) =
     (if b \<noteq> 0 then round64 (a / b) else if a = 0 then NaN else signed_inf (0 < a))"
| "fdiv NaN _ = NaN"
| "fdiv _ NaN = NaN"
| "fdiv (Finite a) _ = Finite 0"
| "fdiv PosInf (Finite b) = signed_inf (0 \<le> b)"
| "fdiv NegInf (Finite b) = signed_inf (b < 0)"
| "fdiv _ _ = NaN"

fun fmul :: "pyfloat \<Rightarrow> pyfloat \<Rightarrow> pyfloat" where
  "fmul (Finite a) (Finite b) = round64 (a * b)"
| "fmul NaN _ = NaN"
| "fmul _ NaN = NaN"
| "fmul PosInf (Finite b) = (if b = 0 then NaN else signed_inf (0 < b))"
| "fmul NegInf (Finite b) = (if b = 0 then NaN else signed_inf (b < 0))"
| "fmul (Finite a) PosInf = (if a = 0 then NaN else signed_inf (0 < a))"
| "fmul (Finite a) NegInf = (if a = 0 then NaN else signed_inf (a < 0))"
| "fmul PosInf PosInf = PosInf"
| "fmul NegInf NegInf = PosInf"
| "fmul _ _ = NegInf"

text \<open>
  The monthly table after \<open>groupby('month_year')['total_quantity'].sum()\<close> and the sort by
  date (lines 615 to 618): one row per month, in time order, with its total, an int64 or
  float64 number. Lines 643 and 644 add the two columns: \<open>shift(1)\<close> moves the totals
  down by one row as floats and puts NaN in the first, and the rate is computed in
  float64 from the total and the shifted total.
\<close>

record monthly =
  month_year :: string
  total_quantity :: rat
  previous_quantity :: pyfloat
  growth_rate :: pyfloat

definition shift1 :: "rat list \<Rightarrow> pyfloat list" where
  "shift1 xs = take (length xs) (NaN # map round64 xs)"

definition add_growth :: "(string \<times> rat) list \<Rightarrow> monthly list" where
  "add_growth monthly_quantity =
     map (\<lambda>((label, total), previous).
            \<lparr>month_year = label, total_quantity = total, previous_quantity = previous,
             growth_rate = fmul (fdiv (fsub (round64 total) previous) previous) (Finite 100)\<rparr>)
         (zip monthly_quantity (shift1 (map snd monthly_quantity)))"

text \<open>\<open>dropna()\<close> keeps the rows that have NaN in no column.\<close>

definition dropna :: "monthly list \<Rightarrow> monthly list" where
  "dropna table = filter (\<lambda>r. previous_quantity r \<noteq> NaN \<and> growth_rate r \<noteq> NaN) table"

text \<open>
  Lines 640 to 660: with more than one month, the chart plots \<open>growth_rate\<close> of the rows
  that \<open>dropna()\<close> keeps; with at most one month there is no chart.
\<close>

definition growth_chart :: "(string \<times> rat) list \<Rightarrow> (string \<times> pyfloat) list option" where
  "growth_chart monthly_quantity =
     (if length monthly_quantity > 1
      then Some (map (\<lambda>r. (month_year r, growth_rate r)) (dropna (add_growth monthly_quantity)))
      else None)"

section \<open>Substring containment\<close>

lemma py_in_iff: "py_in sub s \<longleftrightarrow> (\<exists>pre post. s = pre @ sub @ post)"
proof (induction s)
  case Nil
  then show ?case by auto
next
  case (Cons c cs)
  show ?case
  proof
    assume "py_in sub (c # cs)"
    then consider "take (length sub) (c # cs) = sub" | "py_in sub cs" by auto
    then show "\<exists>pre post. c # cs = pre @ sub @ post"
    proof cases
      case 1
      then have "c # cs = [] @ sub @ drop (length sub) (c # cs)"
        by (metis append_Nil append_take_drop_id)
      then show ?thesis by blast
    next
      case 2
      with Cons.IH obtain pre post where "cs = pre @ sub @ post" by blast
      then have "c # cs = (c # pre) @ sub @ post" by simp
      then show ?thesis by blast
    qed
  next
    assume "\<exists>pre post. c # cs = pre @ sub @ post"
    then obtain pre post where eq: "c # cs = pre @ sub @ post" by blast
    show "py_in sub (c # cs)"
    proof (cases pre)
      case Nil
      with eq have "take (length sub) (c # cs) = sub" by simp
      then show ?thesis by simp
    next
      case (Cons p ps)
      with eq have "cs = ps @ sub @ post" by simp
      with Cons.IH have "py_in sub cs" by blast
      then show ?thesis by simp
    qed
  qed
qed

section \<open>Product categories\<close>

text \<open>
  C1. The category of a sales row depends on the item name only. A name that is not a
  string is \<open>Unknown\<close>; a string gets the label of the first rule, in the order Kimono,
  Gilet, TP Jacket or Trucker Jacket, Tote, Hat, Shorts, Jeans, Skirt, Bottle, DRESS, one
  of whose needles it contains, and \<open>Other\<close> when it contains none. The name
  \<open>Kimono Gilet Jacket\<close> is a \<open>Kimono Jacket\<close>.
\<close>

theorem categorize_product_first_rule:
  "categorize_product v = (case v of PStr name \<Rightarrow> first_match category_rules name | _ \<Rightarrow> ''Unknown'')
   \<and> categorize_product (PStr ''Kimono Gilet Jacket'') = ''Kimono Jacket''
   \<and> first_match category_rules ''Gilet Kimono Jacket'' = ''Kimono Jacket''
   \<and> categorize_product (PStr ''Plain Shirt'') = ''Other''
   \<and> categorize_product PNone = ''Unknown''"
proof -
  have "categorize_product v = (case v of PStr name \<Rightarrow> first_match category_rules name | _ \<Rightarrow> ''Unknown'')"
    by (cases v) (simp_all add: category_rules_def)
  moreover have "categorize_product (PStr ''Kimono Gilet Jacket'') = ''Kimono Jacket''"
    by simp
  moreover have "first_match category_rules ''Gilet Kimono Jacket'' = ''Kimono Jacket''"
    by (simp add: category_rules_def)
  moreover have "categorize_product (PStr ''Plain Shirt'') = ''Other''"
    by simp
  ultimately show ?thesis by simp
qed

section \<open>Frames\<close>

lemma cell_update: "cell (AList.update k v r) c = (if c = k then v else cell r c)"
  by (simp add: cell_def update_conv')

lemma set_unique_by: "set (unique_by f xs) \<subseteq> set xs"
proof (induction f xs rule: unique_by.induct)
  case (1 f)
  then show ?case by simp
next
  case (2 f x xs)
  then show ?case by auto
qed

lemma image_unique_by: "f ` set (unique_by f xs) = f ` set xs"
proof (induction f xs rule: unique_by.induct)
  case (1 f)
  then show ?case by simp
next
  case (2 f x xs)
  have "f ` set (x # xs) = insert (f x) (f ` set (filter (\<lambda>y. f y \<noteq> f x) xs))"
    by auto
  with 2 show ?case by simp
qed

lemma distinct_unique_by: "distinct (map f (unique_by f xs))"
proof (induction f xs rule: unique_by.induct)
  case (1 f)
  then show ?case by simp
next
  case (2 f x xs)
  have "f x \<notin> f ` set (unique_by f (filter (\<lambda>y. f y \<noteq> f x) xs))"
    using set_unique_by [of f "filter (\<lambda>y. f y \<noteq> f x) xs"] by auto
  with 2 show ?case by simp
qed

lemma set_unique_by_id: "set (unique_by id xs) = set xs"
  using image_unique_by [of id xs] by simp

lemma columns_DataFrame: "set (columns (DataFrame records)) = (\<Union>r \<in> set records. fst ` set r)"
  by (auto simp: DataFrame_def Let_def set_unique_by_id)

lemma length_rows_DataFrame: "length (rows (DataFrame records)) = length records"
  by (simp add: DataFrame_def Let_def)

lemma map_of_keyed: "map_of (map (\<lambda>c. (c, f c)) cols) c = (if c \<in> set cols then Some (f c) else None)"
  by (induction cols) auto

lemma cell_missing:
  assumes "c \<notin> fst ` set r"
  shows "cell r c = PFloat NaN"
proof -
  from assms have "map_of r c = None"
    by (simp add: map_of_eq_None_iff)
  then show ?thesis by (simp add: cell_def)
qed

lemma cell_rows_DataFrame:
  assumes "i < length records"
  shows "cell (rows (DataFrame records) ! i) c = cell (records ! i) c"
proof (cases "c \<in> set (columns (DataFrame records))")
  case True
  with assms show ?thesis
    by (simp add: DataFrame_def Let_def cell_def map_of_keyed)
next
  case False
  with assms have "c \<notin> fst ` set (records ! i)"
    by (auto simp: columns_DataFrame)
  then have "cell (records ! i) c = PFloat NaN"
    by (rule cell_missing)
  moreover from False assms have "cell (rows (DataFrame records) ! i) c = PFloat NaN"
    by (simp add: DataFrame_def Let_def cell_def map_of_keyed)
  ultimately show ?thesis by simp
qed

lemma columns_set_column: "set (columns (set_column c vals df)) = insert c (set (columns df))"
  by (auto simp: set_column_def)

lemma rows_set_scalar: "rows (set_scalar c v df) = map (AList.update c v) (rows df)"
proof -
  have "map (\<lambda>(r, v). AList.update c v r) (zip rs (replicate (length rs) v)) = map (AList.update c v) rs" for rs
    by (induction rs) auto
  then show ?thesis by (simp add: set_scalar_def set_column_def)
qed

lemma columns_default_unknown: "set (columns (default_unknown c df)) = insert c (set (columns df))"
  by (auto simp: default_unknown_def set_scalar_def columns_set_column)

lemma length_rows_default_unknown: "length (rows (default_unknown c df)) = length (rows df)"
  by (simp add: default_unknown_def rows_set_scalar)

lemma cell_default_unknown:
  assumes "i < length (rows df)"
  shows "cell (rows (default_unknown c df) ! i) k =
           (if k = c \<and> c \<notin> set (columns df) then PStr ''Unknown'' else cell (rows df ! i) k)"
  using assms by (simp add: default_unknown_def rows_set_scalar cell_update)

lemma columns_categorical_defaults:
  "set (columns (categorical_defaults df)) =
     {''category'', ''collection'', ''gender'', ''size''} \<union> set (columns df)"
  by (auto simp: categorical_defaults_def Let_def columns_default_unknown)

lemma length_rows_categorical_defaults: "length (rows (categorical_defaults df)) = length (rows df)"
  by (simp add: categorical_defaults_def Let_def length_rows_default_unknown)

lemma cell_categorical_defaults:
  assumes "i < length (rows df)"
  shows "cell (rows (categorical_defaults df) ! i) k =
           (if k \<in> {''category'', ''collection'', ''gender'', ''size''} \<and> k \<notin> set (columns df)
            then PStr ''Unknown'' else cell (rows df ! i) k)"
  using assms
  by (auto simp: categorical_defaults_def Let_def cell_default_unknown length_rows_default_unknown
      columns_default_unknown)

lemma astype_int_length: "astype_int xs = Inr ns \<Longrightarrow> length ns = length xs"
proof (induction xs arbitrary: ns rule: astype_int.induct)
  case 1
  then show ?case by simp
next
  case (2 r xs)
  then show ?case by (auto split: sum.splits)
qed simp_all

lemma astype_int_nth:
  "astype_int xs = Inr ns \<Longrightarrow> i < length xs \<Longrightarrow> \<exists>r. xs ! i = Finite r \<and> ns ! i = trunc r"
proof (induction xs arbitrary: ns i rule: astype_int.induct)
  case 1
  then show ?case by simp
next
  case (2 r xs)
  then show ?case by (cases i) (auto split: sum.splits)
qed simp_all

lemma astype_int_total:
  "(\<forall>x \<in> set xs. \<exists>r. x = Finite r) \<Longrightarrow> \<exists>ns. astype_int xs = Inr ns"
proof (induction xs rule: astype_int.induct)
  case 1
  then show ?case by simp
next
  case (2 r xs)
  then show ?case by auto
qed auto

section \<open>Inventory normalisation\<close>

lemma count_column_defaults:
  "map (\<lambda>r. cell r ''count'') (rows (categorical_defaults (DataFrame records))) =
   map (\<lambda>r. cell r ''count'') records"
  by (rule nth_equalityI)
    (simp_all add: length_rows_categorical_defaults length_rows_DataFrame
      cell_categorical_defaults cell_rows_DataFrame)

lemma count_in_columns_defaults:
  "''count'' \<in> set (columns (categorical_defaults (DataFrame records))) \<longleftrightarrow>
   (\<exists>r \<in> set records. ''count'' \<in> fst ` set r)"
  by (simp add: columns_categorical_defaults columns_DataFrame)

lemma process_store_data_Inr:
  assumes "process_store_data parse stores_data = Inr df"
  obtains ns where
    "\<exists>r \<in> set (all_items stores_data). ''count'' \<in> fst ` set r"
    "astype_int (map fillna0 (map (to_numeric parse)
        (map (\<lambda>r. cell r ''count'') (all_items stores_data)))) = Inr ns"
    "df = set_column ''count'' (map PInt ns) (categorical_defaults (DataFrame (all_items stores_data)))"
    "length ns = length (all_items stores_data)"
proof -
  let ?pre = "categorical_defaults (DataFrame (all_items stores_data))"
  from assms have co: "coerce_count parse ?pre = Inr df"
    by (simp add: process_store_data_def Let_def)
  then have has: "''count'' \<in> set (columns ?pre)"
    by (auto simp: coerce_count_def column_def split: if_splits)
  with co obtain ns where
    ns: "astype_int (map fillna0 (map (to_numeric parse) (map (\<lambda>r. cell r ''count'') (rows ?pre)))) = Inr ns"
    and df: "df = set_column ''count'' (map PInt ns) ?pre"
    by (auto simp: coerce_count_def column_def split: sum.splits)
  from ns have ns': "astype_int (map fillna0 (map (to_numeric parse)
        (map (\<lambda>r. cell r ''count'') (all_items stores_data)))) = Inr ns"
    by (simp only: count_column_defaults)
  from astype_int_length [OF ns'] have "length ns = length (all_items stores_data)"
    by simp
  moreover from has have "\<exists>r \<in> set (all_items stores_data). ''count'' \<in> fst ` set r"
    by (simp only: count_in_columns_defaults)
  ultimately show thesis using ns' df that by blast
qed

lemma rows_set_column_nth:
  assumes "length vals = length (rows df)" "i < length (rows df)"
  shows "rows (set_column c vals df) ! i = AList.update c (vals ! i) (rows df ! i)"
  using assms by (simp add: set_column_def)

lemma length_rows_set_column:
  "length vals = length (rows df) \<Longrightarrow> length (rows (set_column c vals df)) = length (rows df)"
  by (simp add: set_column_def)

lemma normalised_frame:
  assumes "process_store_data parse stores_data = Inr df"
  obtains ns where
    "astype_int (map fillna0 (map (to_numeric parse)
        (map (\<lambda>r. cell r ''count'') (all_items stores_data)))) = Inr ns"
    "length ns = length (all_items stores_data)"
    "length (rows df) = length (all_items stores_data)"
    "\<And>i k. i < length (all_items stores_data) \<Longrightarrow>
       cell (rows df ! i) k =
         (if k = ''count'' then PInt (ns ! i)
          else if k \<in> {''category'', ''collection'', ''gender'', ''size''}
                  \<and> (\<forall>r \<in> set (all_items stores_data). k \<notin> fst ` set r)
               then PStr ''Unknown''
          else cell (all_items stores_data ! i) k)"
proof -
  let ?items = "all_items stores_data"
  let ?pre = "categorical_defaults (DataFrame ?items)"
  from process_store_data_Inr [OF assms] obtain ns where
    ns: "astype_int (map fillna0 (map (to_numeric parse) (map (\<lambda>r. cell r ''count'') ?items))) = Inr ns"
    and df: "df = set_column ''count'' (map PInt ns) ?pre"
    and len: "length ns = length ?items"
    by blast
  have lpre: "length (rows ?pre) = length ?items"
    by (simp add: length_rows_categorical_defaults length_rows_DataFrame)
  have l: "length (rows df) = length ?items"
    by (simp add: df length_rows_set_column len lpre)
  have c: "cell (rows df ! i) k =
         (if k = ''count'' then PInt (ns ! i)
          else if k \<in> {''category'', ''collection'', ''gender'', ''size''}
                  \<and> (\<forall>r \<in> set ?items. k \<notin> fst ` set r)
               then PStr ''Unknown''
          else cell (?items ! i) k)" if i: "i < length ?items" for i k
  proof -
    from i have "rows df ! i = AList.update ''count'' (PInt (ns ! i)) (rows ?pre ! i)"
      by (simp add: df rows_set_column_nth len lpre)
    then have "cell (rows df ! i) k = (if k = ''count'' then PInt (ns ! i) else cell (rows ?pre ! i) k)"
      by (simp add: cell_update)
    moreover from i have "cell (rows ?pre ! i) k =
        (if k \<in> {''category'', ''collection'', ''gender'', ''size''}
            \<and> k \<notin> set (columns (DataFrame ?items))
         then PStr ''Unknown'' else cell (?items ! i) k)"
      by (simp add: cell_categorical_defaults length_rows_DataFrame cell_rows_DataFrame)
    moreover have "k \<notin> set (columns (DataFrame ?items)) \<longleftrightarrow> (\<forall>r \<in> set ?items. k \<notin> fst ` set r)"
      by (simp add: columns_DataFrame)
    ultimately show ?thesis by simp
  qed
  from ns len l c show thesis by (rule that)
qed

lemma all_items_records:
  "list_all2 (\<lambda>a r. \<exists>s. a = AList.update ''store_name'' (PStr s) r)
     (all_items stores_data) (item_records stores_data)"
proof (induction stores_data)
  case Nil
  then show ?case by (simp add: all_items_def item_records_def)
next
  case (Cons x stores_data)
  obtain store_name items where x: "x = (store_name, items)" by (cases x)
  have "list_all2 (\<lambda>a r. \<exists>s. a = AList.update ''store_name'' (PStr s) r)
          (map (\<lambda>item. AList.update ''store_name'' (PStr (py_strip store_name)) item) items) items"
    by (induction items) auto
  with Cons.IH show ?case
    by (simp add: x all_items_def item_records_def list_all2_appendI)
qed

lemma length_all_items: "length (all_items stores_data) = length (item_records stores_data)"
  using all_items_records by (rule list_all2_lengthD)

lemma all_items_nth:
  assumes "i < length (item_records stores_data)"
  obtains s where "all_items stores_data ! i = AList.update ''store_name'' (PStr s) (item_records stores_data ! i)"
  using list_all2_nthD2 [OF all_items_records assms] by blast

lemma keys_all_items_nth:
  assumes "i < length (item_records stores_data)" "k \<noteq> ''store_name''"
  shows "k \<in> fst ` set (all_items stores_data ! i) \<longleftrightarrow> k \<in> fst ` set (item_records stores_data ! i)"
proof -
  from assms(1) obtain s where
    "all_items stores_data ! i = AList.update ''store_name'' (PStr s) (item_records stores_data ! i)"
    by (rule all_items_nth)
  with assms(2) show ?thesis by (simp add: dom_update)
qed

lemma cell_all_items_nth:
  assumes "i < length (item_records stores_data)" "k \<noteq> ''store_name''"
  shows "cell (all_items stores_data ! i) k = cell (item_records stores_data ! i) k"
proof -
  from assms(1) obtain s where
    "all_items stores_data ! i = AList.update ''store_name'' (PStr s) (item_records stores_data ! i)"
    by (rule all_items_nth)
  with assms(2) show ?thesis by (simp add: cell_update)
qed

lemma key_absent_all_items:
  assumes "k \<noteq> ''store_name''"
  shows "(\<forall>r \<in> set (all_items stores_data). k \<notin> fst ` set r) \<longleftrightarrow>
         (\<forall>r \<in> set (item_records stores_data). k \<notin> fst ` set r)"
proof -
  have "(\<forall>r \<in> set (all_items stores_data). k \<notin> fst ` set r) \<longleftrightarrow>
        (\<forall>i < length (item_records stores_data). k \<notin> fst ` set (all_items stores_data ! i))"
    by (simp add: all_set_conv_all_nth length_all_items)
  also have "\<dots> \<longleftrightarrow> (\<forall>i < length (item_records stores_data). k \<notin> fst ` set (item_records stores_data ! i))"
    using keys_all_items_nth [OF _ assms] by blast
  also have "\<dots> \<longleftrightarrow> (\<forall>r \<in> set (item_records stores_data). k \<notin> fst ` set r)"
    by (simp add: all_set_conv_all_nth)
  finally show ?thesis .
qed

lemma cell_present: "cell r c = v \<Longrightarrow> v \<noteq> PFloat NaN \<Longrightarrow> map_of r c = Some v"
  by (auto simp: cell_def split: option.splits)

lemma trunc_nonneg: "0 \<le> trunc q \<longleftrightarrow> - 1 < q"
  by (auto simp: trunc_def zero_le_ceiling zero_le_floor)

lemma normalised_row:
  assumes "process_store_data parse stores_data = Inr df" "i < length (item_records stores_data)"
  obtains q where
    "fillna0 (to_numeric parse (cell (item_records stores_data ! i) ''count'')) = Finite q"
    "cell (rows df ! i) ''count'' = PInt (trunc q)"
proof -
  from normalised_frame [OF assms(1)] obtain ns where
    ns: "astype_int (map fillna0 (map (to_numeric parse)
        (map (\<lambda>r. cell r ''count'') (all_items stores_data)))) = Inr ns"
    and c: "\<And>i k. i < length (all_items stores_data) \<Longrightarrow>
       cell (rows df ! i) k =
         (if k = ''count'' then PInt (ns ! i)
          else if k \<in> {''category'', ''collection'', ''gender'', ''size''}
                  \<and> (\<forall>r \<in> set (all_items stores_data). k \<notin> fst ` set r)
               then PStr ''Unknown''
          else cell (all_items stores_data ! i) k)"
    by blast
  from assms(2) have i: "i < length (all_items stores_data)"
    by (simp add: length_all_items)
  with astype_int_nth [OF ns, of i] obtain q where
    q: "fillna0 (to_numeric parse (cell (all_items stores_data ! i) ''count'')) = Finite q"
    and n: "ns ! i = trunc q"
    by auto
  from q assms(2) have "fillna0 (to_numeric parse (cell (item_records stores_data ! i) ''count'')) = Finite q"
    by (simp add: cell_all_items_nth)
  moreover from c [OF i, of "''count''"] n have "cell (rows df ! i) ''count'' = PInt (trunc q)"
    by simp
  ultimately show thesis by (rule that)
qed

text \<open>
  C2, as the code has it. When \<open>process_store_data\<close> returns a table, it has one row per
  item record, and the count stored in a row is an integer: 0 when the record has no
  count or its count is not a number (\<open>to_numeric\<close> gives NaN), and, for a number of
  magnitude up to \<open>2^53\<close>, that number truncated toward zero. Such a count is
  non-negative exactly when the number is above -1: the code has no step that would
  lift a negative count. (Beyond \<open>2^53\<close> the 64-bit types of the column change the value;
  nothing is stated there.)
\<close>

theorem stored_count_coerced:
  assumes "process_store_data parse stores_data = Inr df"
  shows "length (rows df) = length (item_records stores_data) \<and>
         (\<forall>i < length (item_records stores_data).
            \<exists>n. map_of (rows df ! i) ''count'' = Some (PInt n)
               \<and> (''count'' \<notin> fst ` set (item_records stores_data ! i) \<longrightarrow> n = 0)
               \<and> (to_numeric parse (cell (item_records stores_data ! i) ''count'') = NaN \<longrightarrow> n = 0)
               \<and> (\<forall>q. to_numeric parse (cell (item_records stores_data ! i) ''count'') = Finite q
                        \<and> exact_range q
                      \<longrightarrow> n = trunc q \<and> (0 \<le> n \<longleftrightarrow> - 1 < q)))"
proof (intro conjI allI impI)
  from normalised_frame [OF assms] show "length (rows df) = length (item_records stores_data)"
    by (metis length_all_items)
next
  fix i
  assume i: "i < length (item_records stores_data)"
  let ?raw = "cell (item_records stores_data ! i) ''count''"
  from normalised_row [OF assms i] obtain q where
    q: "fillna0 (to_numeric parse ?raw) = Finite q"
    and n: "cell (rows df ! i) ''count'' = PInt (trunc q)"
    by blast
  have "map_of (rows df ! i) ''count'' = Some (PInt (trunc q))"
    using n by (rule cell_present) simp
  moreover have "trunc q = 0" if "''count'' \<notin> fst ` set (item_records stores_data ! i)"
  proof -
    from that have "?raw = PFloat NaN" by (rule cell_missing)
    with q show ?thesis by (simp add: trunc_def)
  qed
  moreover have "trunc q = 0" if "to_numeric parse ?raw = NaN"
    using that q by (simp add: trunc_def)
  moreover have "trunc q = trunc p \<and> (0 \<le> trunc q \<longleftrightarrow> - 1 < p)"
    if "to_numeric parse ?raw = Finite p \<and> exact_range p" for p
    using that q by (simp add: trunc_nonneg)
  ultimately show "\<exists>n. map_of (rows df ! i) ''count'' = Some (PInt n)
               \<and> (''count'' \<notin> fst ` set (item_records stores_data ! i) \<longrightarrow> n = 0)
               \<and> (to_numeric parse ?raw = NaN \<longrightarrow> n = 0)
               \<and> (\<forall>q. to_numeric parse ?raw = Finite q \<and> exact_range q
                      \<longrightarrow> n = trunc q \<and> (0 \<le> n \<longleftrightarrow> - 1 < q))"
    by blast
qed

theorem stored_count_coerced_witness:
  "process_store_data parse_decimal payload_mixed = Inr frame_mixed
   \<and> length (rows frame_mixed) = 4
   \<and> to_numeric parse_decimal (cell (item_records payload_mixed ! 0) ''count'') = Finite 5
   \<and> exact_range 5
   \<and> map_of (rows frame_mixed ! 0) ''count'' = Some (PInt 5)
   \<and> map_of (rows frame_mixed ! 1) ''count'' = Some (PInt 3)
   \<and> to_numeric parse_decimal (cell (item_records payload_mixed ! 2) ''count'') = NaN
   \<and> map_of (rows frame_mixed ! 2) ''count'' = Some (PInt 0)
   \<and> ''count'' \<notin> fst ` set (item_records payload_mixed ! 3)
   \<and> map_of (rows frame_mixed ! 3) ''count'' = Some (PInt 0)"
proof -
  have h: "process_store_data parse_decimal payload_mixed = Inr frame_mixed"
    by code_simp
  have l: "length (item_records payload_mixed) = 4"
    by (simp add: item_records_def payload_mixed_def)
  have r0: "to_numeric parse_decimal (cell (item_records payload_mixed ! 0) ''count'') = Finite 5"
    by (simp add: item_records_def payload_mixed_def cell_def parse_decimal_def digit_val_def)
  have e: "exact_range 5"
    by (simp add: exact_range_def)
  have r2: "to_numeric parse_decimal (cell (item_records payload_mixed ! 2) ''count'') = NaN"
    by (simp add: item_records_def payload_mixed_def cell_def parse_decimal_def digit_val_def)
  have r3: "''count'' \<notin> fst ` set (item_records payload_mixed ! 3)"
    by (simp add: item_records_def payload_mixed_def)
  from stored_count_coerced [OF h] l have "length (rows frame_mixed) = 4"
    by simp
  moreover from stored_count_coerced [OF h, THEN conjunct2, rule_format, of 0] l r0 e
  have "map_of (rows frame_mixed ! 0) ''count'' = Some (PInt 5)"
    by (auto simp: trunc_def)
  moreover from stored_count_coerced [OF h, THEN conjunct2, rule_format, of 2] l r2
  have "map_of (rows frame_mixed ! 2) ''count'' = Some (PInt 0)"
    by auto
  moreover from stored_count_coerced [OF h, THEN conjunct2, rule_format, of 3] l r3
  have "map_of (rows frame_mixed ! 3) ''count'' = Some (PInt 0)"
    by auto
  moreover have "map_of (rows frame_mixed ! 1) ''count'' = Some (PInt 3)"
    by (simp add: frame_mixed_def)
  ultimately show ?thesis using h r0 e r2 r3 by blast
qed

text \<open>
  The claim as stated (every stored count is non-negative) fails on a record whose count
  is -5: the table is returned and holds -5.
\<close>

theorem stored_count_negative:
  "process_store_data parse_decimal payload_negative = Inr frame_negative
   \<and> map_of (rows frame_negative ! 0) ''count'' = Some (PInt (- 5))
   \<and> exact_range (- 5)
   \<and> \<not> (0::int) \<le> - 5"
proof -
  have "process_store_data parse_decimal payload_negative = Inr frame_negative"
    by code_simp
  moreover have "map_of (rows frame_negative ! 0) ''count'' = Some (PInt (- 5))"
    by (simp add: frame_negative_def)
  ultimately show ?thesis by (simp add: exact_range_def)
qed

text \<open>
  C3. Let the table be the result of \<open>process_store_data\<close> and \<open>c\<close> one of category,
  collection, gender and size. If no record of the payload has the key \<open>c\<close>, every row
  holds the string \<open>Unknown\<close> in column \<open>c\<close>. If some record has it, a row whose record
  lacks it holds the missing value NaN (not \<open>Unknown\<close>), and a row whose record has it
  holds the record's value.
\<close>

theorem categorical_default_is_column_level:
  assumes "process_store_data parse stores_data = Inr df" "c \<in> set categorical"
  shows "length (rows df) = length (item_records stores_data) \<and>
         ((\<forall>r \<in> set (item_records stores_data). c \<notin> fst ` set r) \<longrightarrow>
            (\<forall>row \<in> set (rows df). map_of row c = Some (PStr ''Unknown''))) \<and>
         ((\<exists>r \<in> set (item_records stores_data). c \<in> fst ` set r) \<longrightarrow>
            (\<forall>i < length (item_records stores_data).
               (c \<notin> fst ` set (item_records stores_data ! i) \<longrightarrow>
                  cell (rows df ! i) c = PFloat NaN \<and> isna (cell (rows df ! i) c)
                  \<and> cell (rows df ! i) c \<noteq> PStr ''Unknown'') \<and>
               (c \<in> fst ` set (item_records stores_data ! i) \<longrightarrow>
                  cell (rows df ! i) c = cell (item_records stores_data ! i) c)))"
proof -
  let ?recs = "item_records stores_data"
  from assms(2) have cat: "c \<in> {''category'', ''collection'', ''gender'', ''size''}"
    by (simp add: categorical_def)
  then have ne: "c \<noteq> ''store_name''" "c \<noteq> ''count''"
    by auto
  from normalised_frame [OF assms(1)] obtain ns where
    len: "length (rows df) = length (all_items stores_data)"
    and c: "\<And>i k. i < length (all_items stores_data) \<Longrightarrow>
       cell (rows df ! i) k =
         (if k = ''count'' then PInt (ns ! i)
          else if k \<in> {''category'', ''collection'', ''gender'', ''size''}
                  \<and> (\<forall>r \<in> set (all_items stores_data). k \<notin> fst ` set r)
               then PStr ''Unknown''
          else cell (all_items stores_data ! i) k)"
    by blast
  have l: "length (rows df) = length ?recs"
    by (simp add: len length_all_items)
  have cc: "cell (rows df ! i) c =
      (if \<forall>r \<in> set ?recs. c \<notin> fst ` set r then PStr ''Unknown'' else cell (?recs ! i) c)"
    if "i < length ?recs" for i
    using that c [of i c] cat ne key_absent_all_items [OF ne(1), of stores_data]
    by (simp add: length_all_items cell_all_items_nth)
  have absent: "\<forall>row \<in> set (rows df). map_of row c = Some (PStr ''Unknown'')"
    if "\<forall>r \<in> set ?recs. c \<notin> fst ` set r"
  proof
    fix row
    assume "row \<in> set (rows df)"
    then obtain i where i: "i < length (rows df)" and row: "row = rows df ! i"
      by (auto simp: in_set_conv_nth)
    from i l that have "cell (rows df ! i) c = PStr ''Unknown''"
      by (simp add: cc)
    then show "map_of row c = Some (PStr ''Unknown'')"
      unfolding row by (rule cell_present) simp
  qed
  have present: "(c \<notin> fst ` set (?recs ! i) \<longrightarrow>
                  cell (rows df ! i) c = PFloat NaN \<and> isna (cell (rows df ! i) c)
                  \<and> cell (rows df ! i) c \<noteq> PStr ''Unknown'') \<and>
               (c \<in> fst ` set (?recs ! i) \<longrightarrow> cell (rows df ! i) c = cell (?recs ! i) c)"
    if some: "\<exists>r \<in> set ?recs. c \<in> fst ` set r" and i: "i < length ?recs" for i
  proof -
    from some i have "cell (rows df ! i) c = cell (?recs ! i) c"
      by (auto simp: cc)
    then show ?thesis
      by (auto simp: cell_missing isna_def)
  qed
  from l absent present show ?thesis by blast
qed

theorem categorical_default_is_column_level_witness:
  "process_store_data parse_decimal payload_mixed = Inr frame_mixed
   \<and> ''category'' \<in> set categorical \<and> ''collection'' \<in> set categorical
   \<and> (\<exists>r \<in> set (item_records payload_mixed). ''category'' \<in> fst ` set r)
   \<and> ''category'' \<notin> fst ` set (item_records payload_mixed ! 1)
   \<and> cell (rows frame_mixed ! 1) ''category'' = PFloat NaN
   \<and> cell (rows frame_mixed ! 0) ''category'' = PStr ''Tops''
   \<and> map_of (rows frame_mixed ! 1) ''collection'' = Some (PStr ''Unknown'')"
proof -
  have h: "process_store_data parse_decimal payload_mixed = Inr frame_mixed"
    by code_simp
  have c1: "''category'' \<in> set categorical" and c2: "''collection'' \<in> set categorical"
    by (simp_all add: categorical_def)
  have recs: "item_records payload_mixed =
      [[(''category'', PStr ''Tops''), (''count'', PStr ''5'')], [(''count'', PInt 3)],
       [(''category'', PStr ''Bags''), (''count'', PStr ''n/a'')], [(''category'', PStr ''Tops'')]]"
    by (simp add: item_records_def payload_mixed_def)
  have some: "\<exists>r \<in> set (item_records payload_mixed). ''category'' \<in> fst ` set r"
    by (simp add: recs)
  have none: "\<forall>r \<in> set (item_records payload_mixed). ''collection'' \<notin> fst ` set r"
    by (simp add: recs)
  have lacks: "''category'' \<notin> fst ` set (item_records payload_mixed ! 1)"
    by (simp add: recs)
  have has: "''category'' \<in> fst ` set (item_records payload_mixed ! 0)"
    by (simp add: recs)
  note t1 = categorical_default_is_column_level [OF h c1, THEN conjunct2, THEN conjunct2, THEN mp, OF some, rule_format]
  from t1 [of 1] lacks have "cell (rows frame_mixed ! 1) ''category'' = PFloat NaN"
    by (simp add: recs)
  moreover from t1 [of 0] has have "cell (rows frame_mixed ! 0) ''category'' = PStr ''Tops''"
    by (simp add: recs cell_def)
  moreover from categorical_default_is_column_level [OF h c2, THEN conjunct2, THEN conjunct1, THEN mp, OF none]
  have "map_of (rows frame_mixed ! 1) ''collection'' = Some (PStr ''Unknown'')"
    by (simp add: frame_mixed_def)
  ultimately show ?thesis using h c1 c2 some lacks by blast
qed

text \<open>
  C8, as the code has it. For a payload in which some record carries a count, and no
  count is an infinite number, \<open>process_store_data\<close> returns a table with one row per
  record and an integer count in every row.
\<close>

theorem process_store_data_returns:
  assumes "\<exists>r \<in> set (item_records stores_data). ''count'' \<in> fst ` set r"
    and "\<forall>r \<in> set (item_records stores_data).
           to_numeric parse (cell r ''count'') \<noteq> PosInf \<and> to_numeric parse (cell r ''count'') \<noteq> NegInf"
  shows "\<exists>df. process_store_data parse stores_data = Inr df
           \<and> length (rows df) = length (item_records stores_data)
           \<and> ''count'' \<in> set (columns df)
           \<and> (\<forall>row \<in> set (rows df). \<exists>n. map_of row ''count'' = Some (PInt n))"
proof -
  let ?items = "all_items stores_data"
  let ?pre = "categorical_defaults (DataFrame ?items)"
  have ne: "''count'' \<noteq> ''store_name''" by simp
  from assms(1) have "\<not> (\<forall>r \<in> set (item_records stores_data). ''count'' \<notin> fst ` set r)"
    by blast
  then have "\<exists>r \<in> set ?items. ''count'' \<in> fst ` set r"
    using key_absent_all_items [OF ne, of stores_data] by blast
  then have has: "''count'' \<in> set (columns ?pre)"
    by (simp only: count_in_columns_defaults)
  have "\<exists>q. x = Finite q"
    if "x \<in> set (map fillna0 (map (to_numeric parse) (map (\<lambda>r. cell r ''count'') ?items)))" for x
  proof -
    from that obtain i where i: "i < length ?items"
      and x: "x = fillna0 (to_numeric parse (cell (?items ! i) ''count''))"
      by (auto simp: in_set_conv_nth)
    from i have i': "i < length (item_records stores_data)"
      by (simp add: length_all_items)
    then have "cell (?items ! i) ''count'' = cell (item_records stores_data ! i) ''count''"
      by (simp add: cell_all_items_nth)
    moreover from i' assms(2) have
      "to_numeric parse (cell (item_records stores_data ! i) ''count'') \<noteq> PosInf \<and>
       to_numeric parse (cell (item_records stores_data ! i) ''count'') \<noteq> NegInf"
      by simp
    ultimately show ?thesis
      unfolding x by (cases "to_numeric parse (cell (?items ! i) ''count'')") simp_all
  qed
  then obtain ns where
    ns: "astype_int (map fillna0 (map (to_numeric parse) (map (\<lambda>r. cell r ''count'') ?items))) = Inr ns"
    using astype_int_total by blast
  define df where "df = set_column ''count'' (map PInt ns) ?pre"
  from has ns have r: "process_store_data parse stores_data = Inr df"
    by (simp add: process_store_data_def Let_def coerce_count_def column_def count_column_defaults df_def)
  from normalised_frame [OF r] have l: "length (rows df) = length (item_records stores_data)"
    by (metis length_all_items)
  have "''count'' \<in> set (columns df)"
    by (simp add: df_def columns_set_column)
  moreover have "\<exists>n. map_of row ''count'' = Some (PInt n)" if "row \<in> set (rows df)" for row
  proof -
    from that l obtain i where i: "i < length (item_records stores_data)" and row: "row = rows df ! i"
      by (auto simp: in_set_conv_nth)
    from normalised_row [OF r i] obtain q where "cell (rows df ! i) ''count'' = PInt (trunc q)"
      by blast
    then have "map_of (rows df ! i) ''count'' = Some (PInt (trunc q))"
      by (rule cell_present) simp
    then show ?thesis
      unfolding row by blast
  qed
  ultimately show ?thesis using r l by blast
qed

theorem process_store_data_returns_witness:
  "(\<exists>r \<in> set (item_records payload_mixed). ''count'' \<in> fst ` set r)
   \<and> list_all (\<lambda>r. to_numeric parse_decimal (cell r ''count'') \<noteq> PosInf
                     \<and> to_numeric parse_decimal (cell r ''count'') \<noteq> NegInf) (item_records payload_mixed)
   \<and> (\<exists>df. process_store_data parse_decimal payload_mixed = Inr df
           \<and> length (rows df) = 4
           \<and> ''count'' \<in> set (columns df)
           \<and> list_all (\<lambda>row. \<exists>n. map_of row ''count'' = Some (PInt n)) (rows df))"
proof -
  have recs: "item_records payload_mixed =
      [[(''category'', PStr ''Tops''), (''count'', PStr ''5'')], [(''count'', PInt 3)],
       [(''category'', PStr ''Bags''), (''count'', PStr ''n/a'')], [(''category'', PStr ''Tops'')]]"
    by (simp add: item_records_def payload_mixed_def)
  have some: "\<exists>r \<in> set (item_records payload_mixed). ''count'' \<in> fst ` set r"
    by (simp add: recs)
  have fin: "\<forall>r \<in> set (item_records payload_mixed).
      to_numeric parse_decimal (cell r ''count'') \<noteq> PosInf \<and> to_numeric parse_decimal (cell r ''count'') \<noteq> NegInf"
    by (simp add: recs cell_def parse_decimal_def digit_val_def)
  from process_store_data_returns [OF some fin] obtain df where
    d: "process_store_data parse_decimal payload_mixed = Inr df"
      "length (rows df) = length (item_records payload_mixed)"
      "''count'' \<in> set (columns df)"
      "\<forall>row \<in> set (rows df). \<exists>n. map_of row ''count'' = Some (PInt n)"
    by blast
  from d(2) have "length (rows df) = 4"
    by (simp add: recs)
  moreover from d(4) have "list_all (\<lambda>row. \<exists>n. map_of row ''count'' = Some (PInt n)) (rows df)"
    by (simp only: list_all_iff)
  moreover from fin have "list_all (\<lambda>r. to_numeric parse_decimal (cell r ''count'') \<noteq> PosInf
                     \<and> to_numeric parse_decimal (cell r ''count'') \<noteq> NegInf) (item_records payload_mixed)"
    by (simp only: list_all_iff)
  ultimately show ?thesis using some d(1) d(3) by blast
qed

text \<open>
  The claim as stated (a table for every payload, also when no record carries a count)
  fails: without a count column, reading it raises KeyError. This happens when no record
  has the key, and when every item list is empty.
\<close>

theorem process_store_data_without_count:
  "process_store_data parse_decimal [(''Store A'', [[(''category'', PStr ''Tops'')]])] = Inl (KeyError ''count'')
   \<and> process_store_data parse_decimal [(''Store A'', [])] = Inl (KeyError ''count'')"
proof -
  have "process_store_data parse_decimal [(''Store A'', [[(''category'', PStr ''Tops'')]])] = Inl (KeyError ''count'')"
    by code_simp
  moreover have "process_store_data parse_decimal [(''Store A'', [])] = Inl (KeyError ''count'')"
    by code_simp
  ultimately show ?thesis by simp
qed

section \<open>The fetchers\<close>

text \<open>
  C4, as the code has it. \<open>fetch_store_data\<close> always returns a value. It reports an
  error and returns the empty dictionary when the request raises, when the status is a
  client or server error (400 to 599, the codes that \<open>raise_for_status\<close> rejects), when
  the body is not JSON, when the envelope has no status or a status other than
  \<open>success\<close>, when it has no data field, and when a string-encoded data field does not
  decode. With status \<open>success\<close> and a data field that is not a string it reports
  nothing and returns that field unchanged. Whenever anything is reported, the result
  is the empty dictionary.
\<close>

theorem fetch_store_data_fails_closed:
  "fetch_store_data loads RequestFailed = ([ErrorFetching], PDict [])
   \<and> (400 \<le> code \<and> code < 600 \<longrightarrow>
        fetch_store_data loads (Response code body) = ([ErrorFetching], PDict []))
   \<and> (loads body = None \<longrightarrow>
        fetch_store_data loads (Response code body) = ([ErrorFetching], PDict []))
   \<and> (\<not> raise_for_status code \<and> loads body = Some envelope \<longrightarrow>
        (\<forall>e. py_getitem envelope ''status'' = Inl e \<longrightarrow>
           fetch_store_data loads (Response code body) = ([ErrorFetching], PDict []))
      \<and> (\<forall>status. py_getitem envelope ''status'' = Inr status \<and> status \<noteq> PStr ''success'' \<longrightarrow>
           fetch_store_data loads (Response code body) = ([ErrorStatus status], PDict []))
      \<and> (py_getitem envelope ''status'' = Inr (PStr ''success'') \<longrightarrow>
           (\<forall>e. py_getitem envelope ''data'' = Inl e \<longrightarrow>
              fetch_store_data loads (Response code body) = ([ErrorFetching], PDict []))
         \<and> (\<forall>s. py_getitem envelope ''data'' = Inr (PStr s) \<and> loads s = None \<longrightarrow>
              fetch_store_data loads (Response code body) = ([ErrorParsingJson], PDict []))
         \<and> (\<forall>s v. py_getitem envelope ''data'' = Inr (PStr s) \<and> loads s = Some v \<longrightarrow>
              fetch_store_data loads (Response code body) = ([], v))
         \<and> (\<forall>d. py_getitem envelope ''data'' = Inr d \<and> \<not> is_str d \<longrightarrow>
              fetch_store_data loads (Response code body) = ([], d))))
   \<and> (fst (fetch_store_data loads result) \<noteq> [] \<longrightarrow> snd (fetch_store_data loads result) = PDict [])"
proof -
  have a: "fetch_store_data loads RequestFailed = ([ErrorFetching], PDict [])"
    by (simp add: fetch_store_data_def)
  have b: "fetch_store_data loads (Response code body) = ([ErrorFetching], PDict [])"
    if "400 \<le> code \<and> code < 600"
    using that by (simp add: fetch_store_data_def raise_for_status_def)
  have c: "fetch_store_data loads (Response code body) = ([ErrorFetching], PDict [])"
    if "loads body = None"
    using that by (simp add: fetch_store_data_def)
  have d: "(\<forall>e. py_getitem envelope ''status'' = Inl e \<longrightarrow>
           fetch_store_data loads (Response code body) = ([ErrorFetching], PDict []))
      \<and> (\<forall>status. py_getitem envelope ''status'' = Inr status \<and> status \<noteq> PStr ''success'' \<longrightarrow>
           fetch_store_data loads (Response code body) = ([ErrorStatus status], PDict []))
      \<and> (py_getitem envelope ''status'' = Inr (PStr ''success'') \<longrightarrow>
           (\<forall>e. py_getitem envelope ''data'' = Inl e \<longrightarrow>
              fetch_store_data loads (Response code body) = ([ErrorFetching], PDict []))
         \<and> (\<forall>s. py_getitem envelope ''data'' = Inr (PStr s) \<and> loads s = None \<longrightarrow>
              fetch_store_data loads (Response code body) = ([ErrorParsingJson], PDict []))
         \<and> (\<forall>s v. py_getitem envelope ''data'' = Inr (PStr s) \<and> loads s = Some v \<longrightarrow>
              fetch_store_data loads (Response code body) = ([], v))
         \<and> (\<forall>d. py_getitem envelope ''data'' = Inr d \<and> \<not> is_str d \<longrightarrow>
              fetch_store_data loads (Response code body) = ([], d)))"
    if "\<not> raise_for_status code \<and> loads body = Some envelope"
    using that by (auto simp: fetch_store_data_def is_str_def split: pyval.splits)
  have e: "snd (fetch_store_data loads result) = PDict []"
    if "fst (fetch_store_data loads result) \<noteq> []"
    using that
    by (auto simp: fetch_store_data_def split: http_result.splits option.splits sum.splits
        pyval.splits if_splits)
  from a b c d e show ?thesis by blast
qed

theorem fetch_store_data_fails_closed_witness:
  "fetch_store_data sample_loads RequestFailed = ([ErrorFetching], PDict [])
   \<and> fetch_store_data sample_loads (Response 503 body_success) = ([ErrorFetching], PDict [])
   \<and> sample_loads ''<html>'' = None
   \<and> fetch_store_data sample_loads (Response 200 ''<html>'') = ([ErrorFetching], PDict [])
   \<and> fetch_store_data sample_loads (Response 200 body_error_status) = ([ErrorStatus (PStr ''error'')], PDict [])
   \<and> fetch_store_data sample_loads (Response 200 body_bad_encoded) = ([ErrorParsingJson], PDict [])
   \<and> fetch_store_data sample_loads (Response 200 body_success_encoded) = ([], PList [PInt 1])
   \<and> fetch_store_data sample_loads (Response 200 body_success)
       = ([], PDict [(''Store A'', PList [PDict [(''count'', PInt 5)]])])"
proof -
  note defs = sample_loads_def body_success_def body_success_encoded_def body_bad_encoded_def
    body_error_status_def body_sales_def
  note t = fetch_store_data_fails_closed [where loads = sample_loads]
  have ok: "\<not> raise_for_status 200"
    by (simp add: raise_for_status_def)
  have "fetch_store_data sample_loads RequestFailed = ([ErrorFetching], PDict [])"
    using t by blast
  moreover have "fetch_store_data sample_loads (Response 503 body_success) = ([ErrorFetching], PDict [])"
    using t [of 503 body_success] by simp
  moreover have n: "sample_loads ''<html>'' = None"
    by (simp add: defs)
  moreover have "fetch_store_data sample_loads (Response 200 ''<html>'') = ([ErrorFetching], PDict [])"
    using t [of 200 "''<html>''"] n by blast
  moreover have "fetch_store_data sample_loads (Response 200 body_error_status)
      = ([ErrorStatus (PStr ''error'')], PDict [])"
  proof -
    have "sample_loads body_error_status = Some (PDict [(''status'', PStr ''error''), (''data'', PDict [])])"
      by (simp add: defs)
    moreover have "py_getitem (PDict [(''status'', PStr ''error''), (''data'', PDict [])]) ''status''
        = Inr (PStr ''error'') \<and> PStr ''error'' \<noteq> PStr ''success''"
      by (simp add: py_getitem_def)
    ultimately show ?thesis
      using t [of 200 body_error_status "PDict [(''status'', PStr ''error''), (''data'', PDict [])]"] ok
      by blast
  qed
  moreover have "fetch_store_data sample_loads (Response 200 body_bad_encoded) = ([ErrorParsingJson], PDict [])"
  proof -
    have "sample_loads body_bad_encoded = Some (PDict [(''status'', PStr ''success''), (''data'', PStr ''{oops'')])"
      by (simp add: defs)
    moreover have "py_getitem (PDict [(''status'', PStr ''success''), (''data'', PStr ''{oops'')]) ''status''
        = Inr (PStr ''success'')"
      by (simp add: py_getitem_def)
    moreover have "py_getitem (PDict [(''status'', PStr ''success''), (''data'', PStr ''{oops'')]) ''data''
        = Inr (PStr ''{oops'') \<and> sample_loads ''{oops'' = None"
      by (simp add: py_getitem_def defs)
    ultimately show ?thesis
      using t [of 200 body_bad_encoded "PDict [(''status'', PStr ''success''), (''data'', PStr ''{oops'')]"] ok
      by blast
  qed
  moreover have "fetch_store_data sample_loads (Response 200 body_success_encoded) = ([], PList [PInt 1])"
  proof -
    have "sample_loads body_success_encoded = Some (PDict [(''status'', PStr ''success''), (''data'', PStr ''[1]'')])"
      by (simp add: defs)
    moreover have "py_getitem (PDict [(''status'', PStr ''success''), (''data'', PStr ''[1]'')]) ''status''
        = Inr (PStr ''success'')"
      by (simp add: py_getitem_def)
    moreover have "py_getitem (PDict [(''status'', PStr ''success''), (''data'', PStr ''[1]'')]) ''data''
        = Inr (PStr ''[1]'') \<and> sample_loads ''[1]'' = Some (PList [PInt 1])"
      by (simp add: py_getitem_def defs)
    ultimately show ?thesis
      using t [of 200 body_success_encoded "PDict [(''status'', PStr ''success''), (''data'', PStr ''[1]'')]"] ok
      by blast
  qed
  moreover have "fetch_store_data sample_loads (Response 200 body_success)
       = ([], PDict [(''Store A'', PList [PDict [(''count'', PInt 5)]])])"
  proof -
    let ?env = "PDict [(''status'', PStr ''success''),
                (''data'', PDict [(''Store A'', PList [PDict [(''count'', PInt 5)]])])]"
    have "sample_loads body_success = Some ?env"
      by (simp add: defs)
    moreover have "py_getitem ?env ''status'' = Inr (PStr ''success'')"
      by (simp add: py_getitem_def)
    moreover have "py_getitem ?env ''data'' = Inr (PDict [(''Store A'', PList [PDict [(''count'', PInt 5)]])])
        \<and> \<not> is_str (PDict [(''Store A'', PList [PDict [(''count'', PInt 5)]])])"
      by (simp add: py_getitem_def is_str_def)
    ultimately show ?thesis
      using t [of 200 body_success ?env] ok by blast
  qed
  ultimately show ?thesis by blast
qed

text \<open>
  The claim as stated (every status outside 200 to 299 gives the empty mapping) fails:
  \<open>raise_for_status\<close> lets a 3xx status pass, so a response with status 300 and a
  well-formed envelope is decoded and its data returned, with nothing reported.
\<close>

theorem fetch_store_data_status_300:
  "\<not> (200 \<le> (300::nat) \<and> (300::nat) < 300)
   \<and> fetch_store_data sample_loads (Response 300 body_success)
       = ([], PDict [(''Store A'', PList [PDict [(''count'', PInt 5)]])])
   \<and> PDict [(''Store A'', PList [PDict [(''count'', PInt 5)]])] \<noteq> PDict []"
  by (simp add: fetch_store_data_def raise_for_status_def sample_loads_def py_getitem_def
      body_success_def body_success_encoded_def body_bad_encoded_def body_error_status_def
      body_sales_def)

text \<open>
  C5. When the GET raises, or answers with a status other than 200, \<open>load_data\<close> shows one
  warning and then fails with UnboundLocalError on \<open>json_data\<close>: no frame is built, empty
  or otherwise. (A 200 response whose body is not JSON ends the same way.)
\<close>

theorem load_data_fetch_failure_is_fatal:
  "load_data loads to_datetime RequestFailed = ([WarningFetch], Inl (UnboundLocalError ''json_data''))
   \<and> (code \<noteq> 200 \<longrightarrow>
        load_data loads to_datetime (Response code body)
          = ([WarningStatus code], Inl (UnboundLocalError ''json_data'')))
   \<and> (loads body = None \<longrightarrow>
        (\<exists>w. load_data loads to_datetime (Response code body)
          = ([w], Inl (UnboundLocalError ''json_data''))))
   \<and> ((result = RequestFailed \<or> (\<exists>c b. result = Response c b \<and> c \<noteq> 200)) \<longrightarrow>
        (\<forall>df. snd (load_data loads to_datetime result) \<noteq> Inr df))"
proof -
  have a: "load_data loads to_datetime RequestFailed = ([WarningFetch], Inl (UnboundLocalError ''json_data''))"
    by (simp add: load_data_def try_fetch_def)
  have b: "load_data loads to_datetime (Response code body)
          = ([WarningStatus code], Inl (UnboundLocalError ''json_data''))" if "code \<noteq> 200"
    using that by (simp add: load_data_def try_fetch_def)
  have c: "\<exists>w. load_data loads to_datetime (Response code body)
          = ([w], Inl (UnboundLocalError ''json_data''))" if "loads body = None"
    using that by (simp add: load_data_def try_fetch_def)
  have d: "\<forall>df. snd (load_data loads to_datetime result) \<noteq> Inr df"
    if "result = RequestFailed \<or> (\<exists>c b. result = Response c b \<and> c \<noteq> 200)"
    using that by (auto simp: load_data_def try_fetch_def)
  from a b c d show ?thesis by blast
qed

theorem load_data_fetch_failure_is_fatal_witness:
  "load_data sample_loads sample_to_datetime RequestFailed
     = ([WarningFetch], Inl (UnboundLocalError ''json_data''))
   \<and> (404::nat) \<noteq> 200
   \<and> load_data sample_loads sample_to_datetime (Response 404 body_sales)
     = ([WarningStatus 404], Inl (UnboundLocalError ''json_data''))
   \<and> sample_loads ''<html>'' = None
   \<and> load_data sample_loads sample_to_datetime (Response 200 ''<html>'')
     = ([WarningFetch], Inl (UnboundLocalError ''json_data''))
   \<and> snd (load_data sample_loads sample_to_datetime (Response 500 body_sales))
     = Inl (UnboundLocalError ''json_data'')"
proof -
  note t = load_data_fetch_failure_is_fatal [where loads = sample_loads and to_datetime = sample_to_datetime]
  have n: "sample_loads ''<html>'' = None"
    by (simp add: sample_loads_def body_success_def body_success_encoded_def body_bad_encoded_def
        body_error_status_def body_sales_def)
  have "load_data sample_loads sample_to_datetime RequestFailed
     = ([WarningFetch], Inl (UnboundLocalError ''json_data''))"
    using t by blast
  moreover have "load_data sample_loads sample_to_datetime (Response 404 body_sales)
     = ([WarningStatus 404], Inl (UnboundLocalError ''json_data''))"
    using t [of 404 body_sales] by simp
  moreover have "load_data sample_loads sample_to_datetime (Response 200 ''<html>'')
     = ([WarningFetch], Inl (UnboundLocalError ''json_data''))"
    by (simp add: load_data_def try_fetch_def n)
  moreover have "snd (load_data sample_loads sample_to_datetime (Response 500 body_sales))
     = Inl (UnboundLocalError ''json_data'')"
    using t [of 500 body_sales] by simp
  ultimately show ?thesis using n by simp
qed

section \<open>Month-over-month growth\<close>

text \<open>
  C6. On the series 10, 15, 12 the growth chart has two entries, one for each month
  after the first, and they are 50 and -20: what \<open>(value[i] - value[i-1]) / value[i-1] * 100\<close>
  gives in float64. (On 3, 4 the entry is the float nearest to a third, times 100,
  rounded: 33.33333333333333.) On the series 0, 0, 5 the chart has one entry where the
  rule of one entry per month after the first has two: the second month's rate is 0/0,
  which is NaN, and \<open>dropna()\<close> removes that row together with the first month's; the one
  entry left is an infinity, 5/0. Lines 231 to 233 compute the same percentage with a
  guard against a zero divisor; line 644 has none.
\<close>

theorem growth_chart_zero_divisor:
  "growth_chart [(''Jan 2025'', 10), (''Feb 2025'', 15), (''Mar 2025'', 12)]
     = Some [(''Feb 2025'', Finite 50), (''Mar 2025'', Finite (- 20))]
   \<and> growth_chart [(''Jan 2025'', 3), (''Feb 2025'', 4)]
     = Some [(''Feb 2025'', Finite (2345624805922133 / 70368744177664))]
   \<and> growth_chart [(''Jan 2025'', 0), (''Feb 2025'', 0), (''Mar 2025'', 5)]
     = Some [(''Mar 2025'', PosInf)]
   \<and> length [(''Mar 2025'', PosInf)]
     \<noteq> length [(''Jan 2025'', 0 :: rat), (''Feb 2025'', 0), (''Mar 2025'', 5)] - 1"
proof -
  have "growth_chart [(''Jan 2025'', 10), (''Feb 2025'', 15), (''Mar 2025'', 12)]
     = Some [(''Feb 2025'', Finite 50), (''Mar 2025'', Finite (- 20))]"
    by code_simp
  moreover have "growth_chart [(''Jan 2025'', 3), (''Feb 2025'', 4)]
     = Some [(''Feb 2025'', Finite (2345624805922133 / 70368744177664))]"
    by code_simp
  moreover have "growth_chart [(''Jan 2025'', 0), (''Feb 2025'', 0), (''Mar 2025'', 5)]
     = Some [(''Mar 2025'', PosInf)]"
    by code_simp
  ultimately show ?thesis by simp
qed

section \<open>Aggregation\<close>

lemma sum_list_no_key:
  fixes a :: int
  shows "k \<notin> set ks \<Longrightarrow> sum_list (map (\<lambda>j. if k = j then a else 0) ks) = 0"
  by (induction ks) auto

lemma sum_list_delta:
  fixes a :: int
  assumes "distinct ks" "k \<in> set ks"
  shows "sum_list (map (\<lambda>j. if k = j then a else 0) ks) = a"
  using assms by (induction ks) (auto simp: sum_list_no_key)

lemma sum_by_key:
  fixes g :: "'a \<Rightarrow> int"
  assumes "distinct ks" "f ` set xs \<subseteq> set ks"
  shows "sum_list (map (\<lambda>k. sum_list (map g (filter (\<lambda>x. f x = k) xs))) ks) = sum_list (map g xs)"
  using assms(2)
proof (induction xs)
  case Nil
  then show ?case by simp
next
  case (Cons x xs)
  have "sum_list (map (\<lambda>k. sum_list (map g (filter (\<lambda>y. f y = k) (x # xs)))) ks)
      = sum_list (map (\<lambda>k. (if f x = k then g x else 0)
                           + sum_list (map g (filter (\<lambda>y. f y = k) xs))) ks)"
    by (rule arg_cong [where f = sum_list]) simp
  also have "\<dots> = sum_list (map (\<lambda>k. if f x = k then g x else 0) ks)
                  + sum_list (map (\<lambda>k. sum_list (map g (filter (\<lambda>y. f y = k) xs))) ks)"
    by (simp add: sum_list_addf)
  also have "sum_list (map (\<lambda>k. if f x = k then g x else 0) ks) = g x"
    using assms(1) Cons.prems by (simp add: sum_list_delta)
  also have "sum_list (map (\<lambda>k. sum_list (map g (filter (\<lambda>y. f y = k) xs))) ks) = sum_list (map g xs)"
    using Cons by simp
  finally show ?case by simp
qed

lemma int64_add_left: "int64 (int64 a + b) = int64 (a + b)"
proof -
  have "(((a + 2 ^ 63) mod 2 ^ 64 - 2 ^ 63 + b) + 2 ^ 63) mod 2 ^ 64
      = ((a + 2 ^ 63) mod 2 ^ 64 + b) mod (2 ^ 64 :: int)"
    by (simp add: algebra_simps)
  also have "\<dots> = ((a + 2 ^ 63) + b) mod 2 ^ 64"
    by (rule mod_add_left_eq)
  finally show ?thesis
    by (simp add: int64_def algebra_simps)
qed

lemma int64_add_right: "int64 (a + int64 b) = int64 (a + b)"
  using int64_add_left [of b a] by (simp add: add.commute)

lemma int64_sum_list:
  "int64 (sum_list (map (\<lambda>k. int64 (f k)) ks)) = int64 (sum_list (map f ks))"
proof (induction ks)
  case Nil
  then show ?case by simp
next
  case (Cons k ks)
  have "int64 (int64 (f k) + sum_list (map (\<lambda>k. int64 (f k)) ks))
      = int64 (f k + sum_list (map (\<lambda>k. int64 (f k)) ks))"
    by (rule int64_add_left)
  also have "\<dots> = int64 (f k + int64 (sum_list (map (\<lambda>k. int64 (f k)) ks)))"
    by (simp only: int64_add_right)
  also have "\<dots> = int64 (f k + int64 (sum_list (map f ks)))"
    by (simp only: Cons.IH)
  also have "\<dots> = int64 (f k + sum_list (map f ks))"
    by (rule int64_add_right)
  finally show ?case by simp
qed

lemma distinct_map_insort_key:
  "distinct (map f (insort_key f x xs)) \<longleftrightarrow> f x \<notin> f ` set xs \<and> distinct (map f xs)"
  by (induction xs) (auto simp: set_insort_key)

lemma distinct_map_sort_key: "distinct (map f (sort_key f xs)) \<longleftrightarrow> distinct (map f xs)"
  by (induction xs) (simp_all add: distinct_map_insort_key)

lemma group_labels_keys:
  "distinct (map scalar_key (sort_key scalar_key (unique_by scalar_key vs)))
   \<and> set (map scalar_key (sort_key scalar_key (unique_by scalar_key vs))) = scalar_key ` set vs"
  by (simp add: distinct_map_sort_key distinct_unique_by image_unique_by)

lemma groupby_count_sum_Inr:
  assumes "groupby_count_sum c df = Inr g"
  shows "c \<noteq> ''count''"
    and "rows g = map (\<lambda>k. [(c, k),
                 (''count'', PInt (int64 (sum_list (map count_of
                    (filter (\<lambda>r. scalar_key (cell r c) = scalar_key k)
                       (filter (\<lambda>r. \<not> isna (cell r c)) (rows df)))))))])
            (sort_key scalar_key
               (unique_by scalar_key (map (\<lambda>r. cell r c) (filter (\<lambda>r. \<not> isna (cell r c)) (rows df)))))"
  using assms
  by (auto simp: groupby_count_sum_def bind_def column_def pd_unique_def Let_def
      split: if_splits sum.splits)

lemma groupby_total:
  assumes "groupby_count_sum c df = Inr g"
  shows "count_total g = keyed_total c df"
proof -
  let ?kept = "filter (\<lambda>r. \<not> isna (cell r c)) (rows df)"
  let ?labels = "sort_key scalar_key (unique_by scalar_key (map (\<lambda>r. cell r c) ?kept))"
  let ?S = "\<lambda>key. sum_list (map count_of (filter (\<lambda>r. scalar_key (cell r c) = key) ?kept))"
  note g = groupby_count_sum_Inr [OF assms]
  have "count_of [(c, k), (''count'', PInt n)] = n" for k n
    using g(1) by (simp add: count_of_def cell_def)
  then have "count_total g = int64 (sum_list (map (\<lambda>k. int64 (?S (scalar_key k))) ?labels))"
    by (simp add: count_total_def g(2) comp_def)
  also have "\<dots> = int64 (sum_list (map (\<lambda>k. ?S (scalar_key k)) ?labels))"
    by (rule int64_sum_list)
  also have "sum_list (map (\<lambda>k. ?S (scalar_key k)) ?labels) = sum_list (map ?S (map scalar_key ?labels))"
    by (simp add: comp_def)
  also have "\<dots> = sum_list (map count_of ?kept)"
  proof (rule sum_by_key)
    show "distinct (map scalar_key ?labels)"
      using group_labels_keys by blast
    have "set (map scalar_key ?labels) = scalar_key ` set (map (\<lambda>r. cell r c) ?kept)"
      using group_labels_keys by blast
    then show "(\<lambda>r. scalar_key (cell r c)) ` set ?kept \<subseteq> set (map scalar_key ?labels)"
      by auto
  qed
  finally show ?thesis by (simp add: keyed_total_def)
qed

lemma normalised_integer_counts:
  assumes "process_store_data parse stores_data = Inr df"
  shows "integer_counts df"
  unfolding integer_counts_def list_all_iff
proof
  fix r
  assume "r \<in> set (rows df)"
  moreover from normalised_frame [OF assms] have "length (rows df) = length (item_records stores_data)"
    by (metis length_all_items)
  ultimately obtain i where i: "i < length (item_records stores_data)" and r: "r = rows df ! i"
    by (auto simp: in_set_conv_nth)
  from normalised_row [OF assms i] obtain q where "cell (rows df ! i) ''count'' = PInt (trunc q)"
    by blast
  then show "is_int (cell r ''count'')"
    by (simp add: r is_int_def)
qed

lemma store_name_not_missing:
  assumes "process_store_data parse stores_data = Inr df" "r \<in> set (rows df)"
  shows "\<not> isna (cell r ''store_name'')"
proof -
  from normalised_frame [OF assms(1)] obtain ns where
    len: "length (rows df) = length (all_items stores_data)"
    and c: "\<And>i k. i < length (all_items stores_data) \<Longrightarrow>
       cell (rows df ! i) k =
         (if k = ''count'' then PInt (ns ! i)
          else if k \<in> {''category'', ''collection'', ''gender'', ''size''}
                  \<and> (\<forall>r \<in> set (all_items stores_data). k \<notin> fst ` set r)
               then PStr ''Unknown''
          else cell (all_items stores_data ! i) k)"
    by blast
  from assms(2) len obtain i where i: "i < length (all_items stores_data)" and r: "r = rows df ! i"
    by (auto simp: in_set_conv_nth)
  from i have "i < length (item_records stores_data)"
    by (simp add: length_all_items)
  then obtain s where "all_items stores_data ! i = AList.update ''store_name'' (PStr s) (item_records stores_data ! i)"
    by (rule all_items_nth)
  then have "cell (all_items stores_data ! i) ''store_name'' = PStr s"
    by (simp add: cell_update)
  with c [OF i, of "''store_name''"] have "cell r ''store_name'' = PStr s"
    by (simp add: r)
  then show ?thesis by (simp add: isna_def)
qed

text \<open>
  C7, as the code has it. Take a normalised inventory table; all that is used of it is
  that its count column holds integers. Let \<open>g\<close> be the table that grouping by column
  \<open>c\<close> and summing count gives. The group sums add up to the count total of the rows
  whose key in \<open>c\<close> is not missing: rows with a missing key belong to no group. So the
  total is conserved when no key is missing, and in particular when the table is
  grouped by store name.
\<close>

theorem groupby_conserves_keyed_total:
  assumes "integer_counts df" "groupby_count_sum c df = Inr g"
  shows "count_total g = keyed_total c df
         \<and> ((\<forall>r \<in> set (rows df). \<not> isna (cell r c)) \<longrightarrow> count_total g = count_total df)
         \<and> (c = ''store_name'' \<and> (\<exists>parse stores_data. process_store_data parse stores_data = Inr df)
              \<longrightarrow> count_total g = count_total df)"
proof -
  have t: "count_total g = keyed_total c df"
    using assms(2) by (rule groupby_total)
  have full: "count_total g = count_total df" if "\<forall>r \<in> set (rows df). \<not> isna (cell r c)"
  proof -
    from that have "filter (\<lambda>r. \<not> isna (cell r c)) (rows df) = rows df"
      by (simp add: filter_id_conv)
    with t show ?thesis by (simp add: keyed_total_def count_total_def)
  qed
  have "count_total g = count_total df"
    if "c = ''store_name'' \<and> (\<exists>parse stores_data. process_store_data parse stores_data = Inr df)"
  proof -
    from that obtain parse stores_data where "process_store_data parse stores_data = Inr df"
      by blast
    then have "\<forall>r \<in> set (rows df). \<not> isna (cell r ''store_name'')"
      using store_name_not_missing by blast
    with that full show ?thesis by simp
  qed
  with t full show ?thesis by blast
qed

theorem groupby_conserves_keyed_total_witness:
  "process_store_data parse_decimal payload_mixed = Inr frame_mixed
   \<and> integer_counts frame_mixed
   \<and> groupby_count_sum ''store_name'' frame_mixed = Inr by_store_mixed
   \<and> count_total by_store_mixed = count_total frame_mixed
   \<and> count_total frame_mixed = 8
   \<and> groupby_count_sum ''category'' frame_mixed = Inr by_category_mixed
   \<and> count_total by_category_mixed = keyed_total ''category'' frame_mixed
   \<and> keyed_total ''category'' frame_mixed = 5"
proof -
  have s: "groupby_count_sum ''store_name'' frame_mixed = Inr by_store_mixed"
    by code_simp
  have c: "groupby_count_sum ''category'' frame_mixed = Inr by_category_mixed"
    by code_simp
  have p: "process_store_data parse_decimal payload_mixed = Inr frame_mixed"
    by code_simp
  have i: "integer_counts frame_mixed"
    using p by (rule normalised_integer_counts)
  from groupby_conserves_keyed_total [OF i s] p
  have "count_total by_store_mixed = count_total frame_mixed"
    by blast
  moreover from groupby_conserves_keyed_total [OF i c]
  have "count_total by_category_mixed = keyed_total ''category'' frame_mixed"
    by blast
  moreover have "count_total frame_mixed = 8"
    by (simp add: count_total_def count_of_def cell_def frame_mixed_def int64_def)
  moreover have "keyed_total ''category'' frame_mixed = 5"
    by (simp add: keyed_total_def count_of_def cell_def frame_mixed_def isna_def int64_def)
  ultimately show ?thesis using s c p i by blast
qed

text \<open>
  The claim as stated (conservation for every grouping column, also with missing keys)
  fails on a normalised table in which one record has no category: the counts total 8,
  the sums by category total 5.
\<close>

theorem groupby_drops_missing_keys:
  "process_store_data parse_decimal payload_mixed = Inr frame_mixed
   \<and> groupby_count_sum ''category'' frame_mixed = Inr by_category_mixed
   \<and> count_total frame_mixed = 8
   \<and> count_total by_category_mixed = 5"
proof -
  have "process_store_data parse_decimal payload_mixed = Inr frame_mixed"
    by code_simp
  moreover have "groupby_count_sum ''category'' frame_mixed = Inr by_category_mixed"
    by code_simp
  moreover have "count_total frame_mixed = 8"
    by (simp add: count_total_def count_of_def cell_def frame_mixed_def int64_def)
  moreover have "count_total by_category_mixed = 5"
    by (simp add: count_total_def count_of_def cell_def by_category_mixed_def int64_def)
  ultimately show ?thesis by blast
qed

section \<open>Facets\<close>

lemma eq_filter_Inr:
  assumes "eq_filter c v df = Inr out"
  shows "columns out = columns df \<and> rows out = filter (\<lambda>r. cell_eq (cell r c) v) (rows df)"
  using assms by (auto simp: eq_filter_def split: if_splits)

lemma facet_step:
  assumes "(if selected \<noteq> PStr wildcard then eq_filter c selected df else Inr df) = Inr out"
  shows "columns out = columns df \<and> rows out = filter (facet_admits wildcard c selected) (rows df)"
proof (cases "selected = PStr wildcard")
  case True
  then have "facet_admits wildcard c selected = (\<lambda>r. True)"
    by (intro ext) (simp add: facet_admits_def)
  with assms True show ?thesis by simp
next
  case False
  then have "facet_admits wildcard c selected = (\<lambda>r. cell_eq (cell r c) selected)"
    by (intro ext) (simp add: facet_admits_def)
  moreover from assms False have "eq_filter c selected df = Inr out" by simp
  ultimately show ?thesis
    using eq_filter_Inr by simp
qed

lemma bind_Inr:
  assumes "bind m f = Inr y"
  obtains x where "m = Inr x" "f x = Inr y"
  using assms by (cases m) (simp_all add: bind_def)

lemma inventory_filtered_rows:
  assumes "inventory_filtered selected_store selected_category selected_collection selected_gender df = Inr out"
  shows "columns out = columns df \<and>
         rows out = filter (\<lambda>r. facet_admits ''All Stores'' ''store_name'' selected_store r
                              \<and> facet_admits ''All Categories'' ''category'' selected_category r
                              \<and> facet_admits ''All Collections'' ''collection'' selected_collection r
                              \<and> facet_admits ''All Genders'' ''gender'' selected_gender r) (rows df)"
proof -
  from assms obtain df1 df2 df3 where
    s1: "(if selected_store \<noteq> PStr ''All Stores''
          then eq_filter ''store_name'' selected_store df else Inr df) = Inr df1"
    and s2: "(if selected_category \<noteq> PStr ''All Categories''
          then eq_filter ''category'' selected_category df1 else Inr df1) = Inr df2"
    and s3: "(if selected_collection \<noteq> PStr ''All Collections''
          then eq_filter ''collection'' selected_collection df2 else Inr df2) = Inr df3"
    and s4: "(if selected_gender \<noteq> PStr ''All Genders''
          then eq_filter ''gender'' selected_gender df3 else Inr df3) = Inr out"
    unfolding inventory_filtered_def by (elim bind_Inr) blast
  from facet_step [OF s1] facet_step [OF s2] facet_step [OF s3] facet_step [OF s4]
  show ?thesis
    by (simp add: conj_commute conj_left_commute)
qed

lemma sales_filtered_rows:
  assumes "sales_filtered selected_year selected_month selected_store selected_category df = Inr out"
  shows "columns out = columns df \<and>
         rows out = filter (\<lambda>r. cell_eq (cell r ''year'') selected_year
                              \<and> facet_admits ''All Months'' ''month_name'' selected_month r
                              \<and> facet_admits ''All Stores'' ''store_name'' selected_store r
                              \<and> facet_admits ''All Categories'' ''product_category'' selected_category r)
                     (rows df)"
proof -
  from assms obtain df1 df2 df3 where
    s1: "eq_filter ''year'' selected_year df = Inr df1"
    and s2: "(if selected_month \<noteq> PStr ''All Months''
          then eq_filter ''month_name'' selected_month df1 else Inr df1) = Inr df2"
    and s3: "(if selected_store \<noteq> PStr ''All Stores''
          then eq_filter ''store_name'' selected_store df2 else Inr df2) = Inr df3"
    and s4: "(if selected_category \<noteq> PStr ''All Categories''
          then eq_filter ''product_category'' selected_category df3 else Inr df3) = Inr out"
    unfolding sales_filtered_def by (elim bind_Inr) blast
  from eq_filter_Inr [OF s1] facet_step [OF s2] facet_step [OF s3] facet_step [OF s4]
  show ?thesis
    by (simp add: conj_commute conj_left_commute)
qed

lemma distinct_map_insort_key_any:
  "distinct (map f (insort_key g x xs)) \<longleftrightarrow> f x \<notin> f ` set xs \<and> distinct (map f xs)"
  by (induction xs) (auto simp: set_insort_key)

lemma distinct_map_sort_key_any: "distinct (map f (sort_key g xs)) \<longleftrightarrow> distinct (map f xs)"
  by (induction xs) (simp_all add: distinct_map_insort_key_any)

lemma py_sorted_cases:
  assumes "py_sorted nan_order xs = Inr ys"
  shows "ys = xs \<and> length xs \<le> 1
         \<or> ys = sort_key scalar_key xs \<and> \<not> list_ex isna xs
         \<or> ys = sort_key scalar_key xs \<and> list_all is_str xs
         \<or> ys = sort_key nan_order xs \<and> list_ex isna xs"
  using assms by (auto simp: py_sorted_def split: if_splits)

lemma str_not_missing: "is_str v \<Longrightarrow> \<not> isna v"
  by (cases v) (simp_all add: is_str_def isna_def)

lemma py_sorted_set: "py_sorted nan_order xs = Inr ys \<Longrightarrow> set ys = set xs"
  by (auto dest!: py_sorted_cases)

lemma py_sorted_distinct:
  "py_sorted nan_order xs = Inr ys \<Longrightarrow> distinct (map scalar_key ys) = distinct (map scalar_key xs)"
  by (auto dest!: py_sorted_cases simp: distinct_map_sort_key_any)

lemma sorted_short: "length xs \<le> 1 \<Longrightarrow> sorted (map f xs)"
  by (cases xs) auto

lemma py_sorted_sorted:
  assumes "py_sorted nan_order xs = Inr ys" "\<forall>x \<in> set xs. \<not> isna x"
  shows "sorted (map scalar_key ys)"
proof -
  from assms(2) have "\<not> list_ex isna xs"
    by (simp add: list_ex_iff)
  with py_sorted_cases [OF assms(1)] show ?thesis
    by (auto simp: sorted_short)
qed

lemma pd_unique_Inr: "pd_unique xs = Inr ys \<Longrightarrow> ys = unique_by scalar_key xs"
  by (auto simp: pd_unique_def split: if_splits)

lemma sorted_after_unique:
  assumes "pd_unique xs = Inr u"
  shows "py_sorted nan_order u \<noteq> Inl Unmodelled"
proof -
  from assms have "\<not> list_ex unhashable xs" and "u = unique_by scalar_key xs"
    by (auto simp: pd_unique_def split: if_splits)
  with set_unique_by [of scalar_key xs] have "\<not> list_ex unhashable u"
    by (auto simp: list_ex_iff)
  then show ?thesis
    by (simp add: py_sorted_def)
qed

lemma selectbox_default_wildcard:
  assumes "bind (column c df) (\<lambda>col. bind (pd_unique (sel col)) (\<lambda>u. bind (py_sorted nan_order u)
             (\<lambda>s. Inr (PStr wildcard # s)))) = Inr opts"
  shows "selectbox_default opts = PStr wildcard"
  using assms by (elim bind_Inr) (auto simp: selectbox_default_def)

lemma years_Inr:
  assumes "years nan_order df = Inr opts"
  obtains s where "opts = rev s"
    "py_sorted nan_order (unique_by scalar_key (map (\<lambda>r. cell r ''year'') (rows df))) = Inr s"
proof -
  from assms obtain col u s where
    col: "column ''year'' df = Inr col" and u: "pd_unique col = Inr u"
    and s: "py_sorted nan_order u = Inr s" and opts: "opts = rev s"
    unfolding years_def by (elim bind_Inr) auto
  from col have "col = map (\<lambda>r. cell r ''year'') (rows df)"
    by (auto simp: column_def split: if_splits)
  with pd_unique_Inr [OF u] s opts show thesis
    by (intro that [of s]) simp_all
qed

lemma years_options:
  assumes "years nan_order df = Inr opts"
  shows "set opts \<subseteq> (\<lambda>r. cell r ''year'') ` set (rows df)"
    and "\<forall>r \<in> set (rows df). \<exists>opt \<in> set opts. scalar_key opt = scalar_key (cell r ''year'')"
    and "distinct (map scalar_key opts)"
    and "(\<forall>r \<in> set (rows df). \<not> isna (cell r ''year'')) \<Longrightarrow> sorted (rev (map scalar_key opts))"
    and "(\<forall>r \<in> set (rows df). \<not> isna (cell r ''year'')) \<Longrightarrow>
           \<forall>opt \<in> set opts. scalar_key opt \<le> scalar_key (selectbox_default opts)"
proof -
  let ?col = "map (\<lambda>r. cell r ''year'') (rows df)"
  let ?u = "unique_by scalar_key ?col"
  from assms obtain s where opts: "opts = rev s" and s: "py_sorted nan_order ?u = Inr s"
    by (rule years_Inr)
  have set_s: "set s = set ?u"
    using s by (rule py_sorted_set)
  with set_unique_by [of scalar_key ?col] show "set opts \<subseteq> (\<lambda>r. cell r ''year'') ` set (rows df)"
    by (auto simp: opts)
  have keys: "scalar_key ` set s = scalar_key ` set ?col"
    by (simp add: set_s image_unique_by)
  show "\<forall>r \<in> set (rows df). \<exists>opt \<in> set opts. scalar_key opt = scalar_key (cell r ''year'')"
  proof
    fix r
    assume "r \<in> set (rows df)"
    then have "cell r ''year'' \<in> set ?col"
      by simp
    then have "scalar_key (cell r ''year'') \<in> scalar_key ` set ?col"
      by (rule imageI)
    then have "scalar_key (cell r ''year'') \<in> scalar_key ` set s"
      by (simp only: keys)
    then obtain opt where "opt \<in> set s" "scalar_key (cell r ''year'') = scalar_key opt"
      by (rule imageE)
    then show "\<exists>opt \<in> set opts. scalar_key opt = scalar_key (cell r ''year'')"
      by (auto simp: opts)
  qed
  from py_sorted_distinct [OF s] show "distinct (map scalar_key opts)"
    by (simp add: opts distinct_unique_by distinct_rev rev_map [symmetric])
  have desc: "sorted (rev (map scalar_key opts))" if "\<forall>r \<in> set (rows df). \<not> isna (cell r ''year'')"
  proof -
    from that set_unique_by [of scalar_key ?col] have "\<forall>x \<in> set ?u. \<not> isna x"
      by auto
    with s have "sorted (map scalar_key s)"
      by (rule py_sorted_sorted)
    then show ?thesis
      by (simp add: opts rev_map)
  qed
  then show "(\<forall>r \<in> set (rows df). \<not> isna (cell r ''year'')) \<Longrightarrow> sorted (rev (map scalar_key opts))" .
  show "\<forall>opt \<in> set opts. scalar_key opt \<le> scalar_key (selectbox_default opts)"
    if "\<forall>r \<in> set (rows df). \<not> isna (cell r ''year'')"
  proof (cases opts)
    case Nil
    then show ?thesis by simp
  next
    case (Cons first rest)
    from desc [OF that] have "sorted (rev (map scalar_key rest) @ [scalar_key first])"
      by (simp add: Cons)
    then have "\<forall>k \<in> set (rev (map scalar_key rest)). k \<le> scalar_key first"
      by (simp add: sorted_append)
    then show ?thesis
      by (auto simp: Cons selectbox_default_def)
  qed
qed

text \<open>
  C9, as the code has it. Five facets have a wildcard: for the store, category,
  collection and gender selectors of the inventory dashboard, and for the month, store
  and category selectors of the sales dashboard, the \<open>All\<close> entry is the first option and
  the one selected by default, and a filtered table holds exactly the rows that every
  facet admits, where the wildcard admits every row. The year facet of the sales
  dashboard has none. Its options are the distinct cells of the year column: each is a
  year of some row, every row's year is among them, and none occurs twice; when no year
  is missing they are in descending order, so the default selection, the first, is the
  latest year. The filtered table holds only rows whose year equals the selection, so a
  selection that some row's year differs from always removes rows.
\<close>

theorem facets_and_wildcards:
  "(all_stores nan_order df = Inr opts \<longrightarrow> selectbox_default opts = PStr ''All Stores'')
   \<and> (all_categories nan_order df = Inr opts \<longrightarrow> selectbox_default opts = PStr ''All Categories'')
   \<and> (all_collections nan_order df = Inr opts \<longrightarrow> selectbox_default opts = PStr ''All Collections'')
   \<and> (all_genders nan_order df = Inr opts \<longrightarrow> selectbox_default opts = PStr ''All Genders'')
   \<and> selectbox_default months = PStr ''All Months''
   \<and> (all_stores_option nan_order df = Inr opts \<longrightarrow> selectbox_default opts = PStr ''All Stores'')
   \<and> (sales_all_categories nan_order df = Inr opts \<longrightarrow> selectbox_default opts = PStr ''All Categories'')
   \<and> (inventory_filtered selected_store selected_category selected_collection selected_gender df = Inr out
        \<longrightarrow> columns out = columns df \<and>
            rows out = filter (\<lambda>r. facet_admits ''All Stores'' ''store_name'' selected_store r
                                 \<and> facet_admits ''All Categories'' ''category'' selected_category r
                                 \<and> facet_admits ''All Collections'' ''collection'' selected_collection r
                                 \<and> facet_admits ''All Genders'' ''gender'' selected_gender r) (rows df))
   \<and> (sales_filtered selected_year selected_month selected_store selected_category df = Inr out
        \<longrightarrow> columns out = columns df \<and>
            rows out = filter (\<lambda>r. cell_eq (cell r ''year'') selected_year
                                 \<and> facet_admits ''All Months'' ''month_name'' selected_month r
                                 \<and> facet_admits ''All Stores'' ''store_name'' selected_store r
                                 \<and> facet_admits ''All Categories'' ''product_category'' selected_category r)
                        (rows df)
          \<and> ((\<exists>r \<in> set (rows df). \<not> cell_eq (cell r ''year'') selected_year)
               \<longrightarrow> length (rows out) < length (rows df)))
   \<and> facet_admits wildcard c (PStr wildcard) r
   \<and> (years nan_order df = Inr opts \<longrightarrow>
        set opts \<subseteq> (\<lambda>r. cell r ''year'') ` set (rows df)
        \<and> (\<forall>r \<in> set (rows df). \<exists>opt \<in> set opts. scalar_key opt = scalar_key (cell r ''year''))
        \<and> distinct (map scalar_key opts)
        \<and> ((\<forall>r \<in> set (rows df). \<not> isna (cell r ''year'')) \<longrightarrow>
              sorted (rev (map scalar_key opts))
              \<and> (\<forall>opt \<in> set opts. scalar_key opt \<le> scalar_key (selectbox_default opts))))"
proof -
  have a: "selectbox_default opts = PStr ''All Stores''" if "all_stores nan_order df = Inr opts"
    using that unfolding all_stores_def by (rule selectbox_default_wildcard [where sel = "\<lambda>col. col"])
  have b: "selectbox_default opts = PStr w" if "notna_options nan_order w k df = Inr opts" for w k
    using that unfolding notna_options_def
    by (rule selectbox_default_wildcard [where sel = "\<lambda>col. filter (\<lambda>v. \<not> isna v) col"])
  have m: "selectbox_default months = PStr ''All Months''"
    by (simp add: months_def selectbox_default_def)
  have s: "selectbox_default opts = PStr ''All Stores''" if "all_stores_option nan_order df = Inr opts"
    using that unfolding all_stores_option_def by (rule selectbox_default_wildcard [where sel = "\<lambda>col. col"])
  have p: "selectbox_default opts = PStr ''All Categories''" if "sales_all_categories nan_order df = Inr opts"
    using that unfolding sales_all_categories_def by (rule selectbox_default_wildcard [where sel = "\<lambda>col. col"])
  have y: "length (rows out) < length (rows df)"
    if "sales_filtered selected_year selected_month selected_store selected_category df = Inr out"
      and "\<exists>r \<in> set (rows df). \<not> cell_eq (cell r ''year'') selected_year"
  proof -
    from that(2) obtain r where "r \<in> set (rows df)" "\<not> cell_eq (cell r ''year'') selected_year"
      by blast
    then have "length (filter (\<lambda>r. cell_eq (cell r ''year'') selected_year
                              \<and> facet_admits ''All Months'' ''month_name'' selected_month r
                              \<and> facet_admits ''All Stores'' ''store_name'' selected_store r
                              \<and> facet_admits ''All Categories'' ''product_category'' selected_category r)
                     (rows df)) < length (rows df)"
      by (intro length_filter_less [of r]) auto
    with sales_filtered_rows [OF that(1)] show ?thesis by simp
  qed
  have w: "facet_admits wildcard c (PStr wildcard) r"
    by (simp add: facet_admits_def)
  have yr: "set opts \<subseteq> (\<lambda>r. cell r ''year'') ` set (rows df)
        \<and> (\<forall>r \<in> set (rows df). \<exists>opt \<in> set opts. scalar_key opt = scalar_key (cell r ''year''))
        \<and> distinct (map scalar_key opts)
        \<and> ((\<forall>r \<in> set (rows df). \<not> isna (cell r ''year'')) \<longrightarrow>
              sorted (rev (map scalar_key opts))
              \<and> (\<forall>opt \<in> set opts. scalar_key opt \<le> scalar_key (selectbox_default opts)))"
    if "years nan_order df = Inr opts"
    using years_options [OF that] by blast
  from a b [of "''All Categories''" "''category''"] b [of "''All Collections''" "''collection''"]
    b [of "''All Genders''" "''gender''"] m s p inventory_filtered_rows sales_filtered_rows y w yr
  show ?thesis
    unfolding all_categories_def all_collections_def all_genders_def by blast
qed

theorem facets_and_wildcards_witness:
  "all_stores sample_nan_order frame_mixed = Inr [PStr ''All Stores'', PStr ''Store A'', PStr ''Store B'']
   \<and> selectbox_default [PStr ''All Stores'', PStr ''Store A'', PStr ''Store B''] = PStr ''All Stores''
   \<and> inventory_filtered (PStr ''All Stores'') (PStr ''Tops'') (PStr ''All Collections'')
        (PStr ''All Genders'') frame_mixed
       = Inr (frame_mixed\<lparr>rows := [rows frame_mixed ! 0, rows frame_mixed ! 3]\<rparr>)
   \<and> [rows frame_mixed ! 0, rows frame_mixed ! 3]
       = filter (\<lambda>r. facet_admits ''All Stores'' ''store_name'' (PStr ''All Stores'') r
                    \<and> facet_admits ''All Categories'' ''category'' (PStr ''Tops'') r
                    \<and> facet_admits ''All Collections'' ''collection'' (PStr ''All Collections'') r
                    \<and> facet_admits ''All Genders'' ''gender'' (PStr ''All Genders'') r) (rows frame_mixed)
   \<and> sales_filtered (PInt 2025) (PStr ''All Months'') (PStr ''All Stores'') (PStr ''All Categories'')
        frame_sales = Inr \<lparr>columns = sales_columns, rows = [sales_row_2025]\<rparr>
   \<and> (\<exists>r \<in> set (rows frame_sales). \<not> cell_eq (cell r ''year'') (PInt 2025))
   \<and> length [sales_row_2025] < length (rows frame_sales)
   \<and> years sample_nan_order frame_sales = Inr [PInt 2025, PInt 2024]
   \<and> list_all (\<lambda>r. \<not> isna (cell r ''year'')) (rows frame_sales)
   \<and> distinct (map scalar_key [PInt 2025, PInt 2024])
   \<and> sorted (rev (map scalar_key [PInt 2025, PInt 2024]))
   \<and> list_all (\<lambda>opt. scalar_key opt \<le> scalar_key (selectbox_default [PInt 2025, PInt 2024]))
        [PInt 2025, PInt 2024]"
proof -
  have a: "all_stores sample_nan_order frame_mixed = Inr [PStr ''All Stores'', PStr ''Store A'', PStr ''Store B'']"
    by code_simp
  have i: "inventory_filtered (PStr ''All Stores'') (PStr ''Tops'') (PStr ''All Collections'')
        (PStr ''All Genders'') frame_mixed
       = Inr (frame_mixed\<lparr>rows := [rows frame_mixed ! 0, rows frame_mixed ! 3]\<rparr>)"
    by code_simp
  have s: "sales_filtered (PInt 2025) (PStr ''All Months'') (PStr ''All Stores'') (PStr ''All Categories'')
        frame_sales = Inr \<lparr>columns = sales_columns, rows = [sales_row_2025]\<rparr>"
    by code_simp
  have e: "\<exists>r \<in> set (rows frame_sales). \<not> cell_eq (cell r ''year'') (PInt 2025)"
    by (simp add: frame_sales_def sales_row_2024_def sales_row_2025_def cell_def cell_eq_def)
  have y: "years sample_nan_order frame_sales = Inr [PInt 2025, PInt 2024]"
    by code_simp
  have n: "\<forall>r \<in> set (rows frame_sales). \<not> isna (cell r ''year'')"
    by (simp add: frame_sales_def sales_row_2024_def sales_row_2025_def cell_def isna_def)
  from facets_and_wildcards [where df = frame_mixed and nan_order = sample_nan_order
      and opts = "[PStr ''All Stores'', PStr ''Store A'', PStr ''Store B'']"] a
  have "selectbox_default [PStr ''All Stores'', PStr ''Store A'', PStr ''Store B''] = PStr ''All Stores''"
    by blast
  moreover from facets_and_wildcards [where df = frame_mixed
      and selected_store = "PStr ''All Stores''" and selected_category = "PStr ''Tops''"
      and selected_collection = "PStr ''All Collections''" and selected_gender = "PStr ''All Genders''"
      and out = "frame_mixed\<lparr>rows := [rows frame_mixed ! 0, rows frame_mixed ! 3]\<rparr>"] i
  have "[rows frame_mixed ! 0, rows frame_mixed ! 3]
       = filter (\<lambda>r. facet_admits ''All Stores'' ''store_name'' (PStr ''All Stores'') r
                    \<and> facet_admits ''All Categories'' ''category'' (PStr ''Tops'') r
                    \<and> facet_admits ''All Collections'' ''collection'' (PStr ''All Collections'') r
                    \<and> facet_admits ''All Genders'' ''gender'' (PStr ''All Genders'') r) (rows frame_mixed)"
    by simp
  moreover have "length [sales_row_2025] < length (rows frame_sales)"
  proof -
    note t = facets_and_wildcards [where df = frame_sales
      and selected_year = "PInt 2025" and selected_month = "PStr ''All Months''"
      and selected_store = "PStr ''All Stores''" and selected_category = "PStr ''All Categories''"
      and out = "\<lparr>columns = sales_columns, rows = [sales_row_2025]\<rparr>"]
    note t9 = t [THEN conjunct2, THEN conjunct2, THEN conjunct2, THEN conjunct2, THEN conjunct2,
      THEN conjunct2, THEN conjunct2, THEN conjunct2, THEN conjunct1, THEN mp, OF s]
    from t9 [THEN conjunct2, THEN conjunct2, THEN mp, OF e] show ?thesis
      by simp
  qed
  moreover have "distinct (map scalar_key [PInt 2025, PInt 2024])
    \<and> sorted (rev (map scalar_key [PInt 2025, PInt 2024]))
    \<and> list_all (\<lambda>opt. scalar_key opt \<le> scalar_key (selectbox_default [PInt 2025, PInt 2024]))
        [PInt 2025, PInt 2024]"
  proof -
    note t = facets_and_wildcards [where df = frame_sales and nan_order = sample_nan_order
      and opts = "[PInt 2025, PInt 2024]"]
    note t11 = t [THEN conjunct2, THEN conjunct2, THEN conjunct2, THEN conjunct2, THEN conjunct2,
      THEN conjunct2, THEN conjunct2, THEN conjunct2, THEN conjunct2, THEN conjunct2, THEN mp, OF y]
    from t11 have d: "distinct (map scalar_key [PInt 2025, PInt 2024])"
      by blast
    from t11 [THEN conjunct2, THEN conjunct2, THEN conjunct2, THEN mp, OF n]
    have "sorted (rev (map scalar_key [PInt 2025, PInt 2024]))"
      and "\<forall>opt \<in> set [PInt 2025, PInt 2024].
             scalar_key opt \<le> scalar_key (selectbox_default [PInt 2025, PInt 2024])"
      by blast+
    with d show ?thesis
      unfolding list_all_iff by blast
  qed
  moreover from n have "list_all (\<lambda>r. \<not> isna (cell r ''year'')) (rows frame_sales)"
    unfolding list_all_iff .
  ultimately show ?thesis using a i s e y by blast
qed

text \<open>
  The claim as stated (the year facet has an all-wildcard state under which no year
  filter is applied) fails. On the table loaded from the sample response, with rows
  from 2025 and 2024, the year options are those two years and nothing else, 2025 being
  the default; each leaves one row, and a selection \<open>All Years\<close> would leave none, the
  other three facets being at their wildcards.
\<close>

theorem sales_year_has_no_wildcard:
  "load_data sample_loads sample_to_datetime (Response 200 body_sales) = ([], Inr frame_sales)
   \<and> years sample_nan_order frame_sales = Inr [PInt 2025, PInt 2024]
   \<and> selectbox_default [PInt 2025, PInt 2024] = PInt 2025
   \<and> sales_filtered (PInt 2025) (PStr ''All Months'') (PStr ''All Stores'') (PStr ''All Categories'')
        frame_sales = Inr \<lparr>columns = sales_columns, rows = [sales_row_2025]\<rparr>
   \<and> sales_filtered (PInt 2024) (PStr ''All Months'') (PStr ''All Stores'') (PStr ''All Categories'')
        frame_sales = Inr \<lparr>columns = sales_columns, rows = [sales_row_2024]\<rparr>
   \<and> sales_filtered (PStr ''All Years'') (PStr ''All Months'') (PStr ''All Stores'') (PStr ''All Categories'')
        frame_sales = Inr \<lparr>columns = sales_columns, rows = []\<rparr>
   \<and> rows frame_sales = [sales_row_2025, sales_row_2024]"
proof -
  have "load_data sample_loads sample_to_datetime (Response 200 body_sales) = ([], Inr frame_sales)"
    by code_simp
  moreover have "years sample_nan_order frame_sales = Inr [PInt 2025, PInt 2024]"
    by code_simp
  moreover have "selectbox_default [PInt 2025, PInt 2024] = PInt 2025"
    by (simp add: selectbox_default_def)
  moreover have "sales_filtered (PInt 2025) (PStr ''All Months'') (PStr ''All Stores'') (PStr ''All Categories'')
        frame_sales = Inr \<lparr>columns = sales_columns, rows = [sales_row_2025]\<rparr>"
    by code_simp
  moreover have "sales_filtered (PInt 2024) (PStr ''All Months'') (PStr ''All Stores'') (PStr ''All Categories'')
        frame_sales = Inr \<lparr>columns = sales_columns, rows = [sales_row_2024]\<rparr>"
    by code_simp
  moreover have "sales_filtered (PStr ''All Years'') (PStr ''All Months'') (PStr ''All Stores'') (PStr ''All Categories'')
        frame_sales = Inr \<lparr>columns = sales_columns, rows = []\<rparr>"
    by code_simp
  moreover have "rows frame_sales = [sales_row_2025, sales_row_2024]"
    by (simp add: frame_sales_def)
  ultimately show ?thesis by blast
qed

section \<open>The sales table\<close>

lemma normalize_sales_Inr:
  assumes "normalize_sales to_datetime df0 = (msgs, Inr df)"
  obtains df' where
    "df = set_column ''product_category''
            (map (\<lambda>name. PStr (categorize_product name)) (map (\<lambda>r. cell r ''item_name'') (rows df'))) df'"
  using assms
  by (auto simp: normalize_sales_def Let_def column_def
      elim!: bind_Inr split: if_splits prod.splits)

lemma load_data_Inr:
  assumes "load_data loads to_datetime result = (msgs, Inr df)"
  obtains df' where
    "df = set_column ''product_category''
            (map (\<lambda>name. PStr (categorize_product name)) (map (\<lambda>r. cell r ''item_name'') (rows df'))) df'"
proof -
  from assms obtain records m where "normalize_sales to_datetime (DataFrame records) = (m, Inr df)"
    by (auto simp: load_data_def Let_def split: prod.splits option.splits sum.splits)
  then show thesis
    by (rule normalize_sales_Inr) (rule that)
qed

lemma rows_set_column_map:
  "rows (set_column c (map h (rows df)) df) = map (\<lambda>r. AList.update c (h r) r) (rows df)"
proof -
  have "map (\<lambda>(r, v). AList.update c v r) (zip rs (map h rs)) = map (\<lambda>r. AList.update c (h r) r) rs" for rs
    by (induction rs) auto
  then show ?thesis by (simp add: set_column_def)
qed

lemma categorize_product_in: "categorize_product v \<in> set product_categories"
  by (cases v) (simp_all add: product_categories_def)

lemma categorize_product_attains: "categorize_product x = label \<Longrightarrow> label \<in> range categorize_product"
  by auto

lemma product_categories_attained: "set product_categories \<subseteq> range categorize_product"
proof -
  have "''Kimono Jacket'' \<in> range categorize_product"
    by (rule categorize_product_attains [of "PStr ''Kimono''"]) simp
  moreover have "''Gilet Jacket'' \<in> range categorize_product"
    by (rule categorize_product_attains [of "PStr ''Gilet''"]) simp
  moreover have "''TP/Trucker Jacket'' \<in> range categorize_product"
    by (rule categorize_product_attains [of "PStr ''Trucker Jacket''"]) simp
  moreover have "''Tote Bag'' \<in> range categorize_product"
    by (rule categorize_product_attains [of "PStr ''Tote''"]) simp
  moreover have "''Campaign Hats'' \<in> range categorize_product"
    by (rule categorize_product_attains [of "PStr ''Hat''"]) simp
  moreover have "''Shorts'' \<in> range categorize_product"
    by (rule categorize_product_attains [of "PStr ''Shorts''"]) simp
  moreover have "''Jeans'' \<in> range categorize_product"
    by (rule categorize_product_attains [of "PStr ''Jeans''"]) simp
  moreover have "''Skirt'' \<in> range categorize_product"
    by (rule categorize_product_attains [of "PStr ''Skirt''"]) simp
  moreover have "''Bottle Sling'' \<in> range categorize_product"
    by (rule categorize_product_attains [of "PStr ''Bottle''"]) simp
  moreover have "''Dress'' \<in> range categorize_product"
    by (rule categorize_product_attains [of "PStr ''DRESS''"]) simp
  moreover have "''Other'' \<in> range categorize_product"
    by (rule categorize_product_attains [of "PStr []"]) simp
  moreover have "''Unknown'' \<in> range categorize_product"
    by (rule categorize_product_attains [of PNone]) simp
  ultimately show ?thesis
    by (simp add: product_categories_def)
qed

text \<open>
  C10. Whatever its argument, \<open>categorize_product\<close> returns one of twelve strings, and
  each of the twelve is returned for some argument. In every table that \<open>load_data\<close>
  returns, each row's \<open>product_category\<close> is one of them, as a string: a cell that is
  never missing and can serve as a group key.
\<close>

theorem product_category_closed_set:
  "categorize_product v \<in> set product_categories
   \<and> range categorize_product = set product_categories
   \<and> length product_categories = 12 \<and> distinct product_categories
   \<and> (load_data loads to_datetime result = (msgs, Inr df) \<longrightarrow>
        (\<forall>row \<in> set (rows df).
           \<exists>label \<in> set product_categories.
             map_of row ''product_category'' = Some (PStr label)
             \<and> \<not> isna (cell row ''product_category'') \<and> is_scalar (cell row ''product_category'')))"
proof -
  have r: "range categorize_product = set product_categories"
    using categorize_product_in product_categories_attained by blast
  have l: "length product_categories = 12 \<and> distinct product_categories"
    by (simp add: product_categories_def)
  have t: "\<exists>label \<in> set product_categories.
             map_of row ''product_category'' = Some (PStr label)
             \<and> \<not> isna (cell row ''product_category'') \<and> is_scalar (cell row ''product_category'')"
    if ld: "load_data loads to_datetime result = (msgs, Inr df)" and row: "row \<in> set (rows df)" for row
  proof -
    from ld obtain df' where "df = set_column ''product_category''
            (map (\<lambda>name. PStr (categorize_product name)) (map (\<lambda>r. cell r ''item_name'') (rows df'))) df'"
      by (rule load_data_Inr)
    then have "df = set_column ''product_category''
            (map (\<lambda>r. PStr (categorize_product (cell r ''item_name''))) (rows df')) df'"
      by (simp add: comp_def)
    then have "rows df = map (\<lambda>r. AList.update ''product_category''
                                  (PStr (categorize_product (cell r ''item_name''))) r) (rows df')"
      by (simp only: rows_set_column_map)
    with row obtain r where
      "row = AList.update ''product_category'' (PStr (categorize_product (cell r ''item_name''))) r"
      by auto
    then have "map_of row ''product_category'' = Some (PStr (categorize_product (cell r ''item_name'')))"
      by (simp add: update_conv')
    then show ?thesis
      using categorize_product_in [of "cell r ''item_name''"]
      by (auto simp: cell_def isna_def)
  qed
  from categorize_product_in r l t show ?thesis by blast
qed

theorem product_category_closed_set_witness:
  "load_data sample_loads sample_to_datetime (Response 200 body_sales) = ([], Inr frame_sales)
   \<and> list_all (\<lambda>row. \<exists>label \<in> set product_categories.
                        map_of row ''product_category'' = Some (PStr label)) (rows frame_sales)
   \<and> map_of (rows frame_sales ! 0) ''product_category'' = Some (PStr ''Kimono Jacket'')
   \<and> map_of (rows frame_sales ! 1) ''product_category'' = Some (PStr ''Unknown'')"
proof -
  have h: "load_data sample_loads sample_to_datetime (Response 200 body_sales) = ([], Inr frame_sales)"
    by code_simp
  from product_category_closed_set [where loads = sample_loads and to_datetime = sample_to_datetime
      and result = "Response 200 body_sales" and msgs = "[]" and df = frame_sales] h
  have "\<forall>row \<in> set (rows frame_sales).
           \<exists>label \<in> set product_categories.
             map_of row ''product_category'' = Some (PStr label)
             \<and> \<not> isna (cell row ''product_category'') \<and> is_scalar (cell row ''product_category'')"
    by blast
  then have "list_all (\<lambda>row. \<exists>label \<in> set product_categories.
                        map_of row ''product_category'' = Some (PStr label)) (rows frame_sales)"
    unfolding list_all_iff by blast
  moreover have "map_of (rows frame_sales ! 0) ''product_category'' = Some (PStr ''Kimono Jacket'')"
    and "map_of (rows frame_sales ! 1) ''product_category'' = Some (PStr ''Unknown'')"
    by (simp_all add: frame_sales_def sales_row_2025_def sales_row_2024_def)
  ultimately show ?thesis using h by blast
qed

end
